theory Spec2Isabelle
  imports Main "HOL-Library.Char_ord" "HOL-Library.List_Lexorder" "HOL-Library.Option_ord"
begin

section \<open>Data model (src/types, models/Task.model.ts, models/User.model.ts)\<close>

text \<open>
  Roles, priorities and statuses are strings. In the store an identifier is its
  value, the lower-case hexadecimal string that \<open>toString()\<close> gives, and the store's
  queries compare identifiers by that value. What a handler holds is another matter:
  the id paths of a Mongoose document hold \<open>ObjectId\<close> objects, and the source's
  \<open>===\<close> on them is identity of objects (see the run-time values below). An optional
  field (\<open>team?: string\<close>) is an \<open>option\<close>. Dates are integers (milliseconds since
  the epoch). A character is a code unit below 256.
  The document store is a record of three collections, read and written in place of the
  Mongoose queries. \<open>populate\<close> is modelled where a decision reads its result (the
  access check of \<open>getTaskById\<close>); elsewhere it, the e-mail and the socket
  notifications only decorate or accompany a response and are left out, and so is the
  floating-point completion rate of the analytics overview. A query to the store always answers: of the handlers'
  \<open>catch\<close> branches only those with a cause in the request are modelled (a document
  that fails validation, a value that cannot be cast, a broken unique index), not the
  failure of the store itself.
\<close>

record user =
  uid :: string
  username :: string
  email :: string
  password :: string
  role :: string
  team :: "string option"
  isEmailVerified :: bool

record task =
  tid :: string
  title :: string
  description :: "string option"
  dueDate :: "int option"
  priority :: string
  status :: string
  createdBy :: string
  assignedTo :: "string option"
  task_team :: "string option"
  createdAt :: int
  updatedAt :: int

record overview =
  totalTasks :: nat
  completed :: nat
  pending :: nat
  overdue :: nat

text \<open>The cache is \<open>None\<close> when \<open>getRedisClient()\<close> returns \<open>null\<close>.\<close>

record store =
  tasks :: "task list"
  users :: "user list"
  blacklist :: "string list"
  redis :: "(string \<times> overview) list option"

text \<open>JavaScript truthiness of an optional string: \<open>undefined\<close> and \<open>""\<close> are falsy.\<close>

fun truthy :: "string option \<Rightarrow> bool" where
  "truthy None = False"
| "truthy (Some s) = (s \<noteq> [])"

text \<open>\<open>a || b\<close> on an optional string with a string default.\<close>

fun or_else :: "string option \<Rightarrow> string \<Rightarrow> string" where
  "or_else None d = d"
| "or_else (Some s) d = (if s = [] then d else s)"

text \<open>\<open>if (v) { ... v ... }\<close>: the update \<open>f\<close> runs on a truthy value only.\<close>

fun when_truthy :: "string option \<Rightarrow> (string \<Rightarrow> 'a \<Rightarrow> 'a) \<Rightarrow> 'a \<Rightarrow> 'a" where
  "when_truthy None f x = x"
| "when_truthy (Some v) f x = (if v = [] then x else f v x)"

section \<open>Run-time values of ids, and the objects the policy functions are handed\<close>

text \<open>
  \<open>canAccessTask\<close> is declared on \<open>IUser\<close> and \<open>ITask\<close>, whose ids are typed
  \<open>string\<close>. The unit tests call it on plain objects whose ids are strings; the
  handlers call it on Mongoose documents (\<open>req.user = user as any\<close> in the
  middleware, the result of \<open>Task.findById\<close> cast \<open>as any\<close>), whose ids are
  \<open>ObjectId\<close> objects, or user documents after \<open>populate\<close>. An object is told
  apart by its address; \<open>Nullish\<close> stands for \<open>null\<close> and \<open>undefined\<close>.
  \<open>strict_eq\<close> is \<open>===\<close>: strings are equal by value, objects only when they are
  the same object, and a string is never equal to an object.
\<close>

datatype jsval = Nullish | Str string | ObjectId nat string | Document nat string

fun strict_eq :: "jsval \<Rightarrow> jsval \<Rightarrow> bool" where
  "strict_eq Nullish Nullish = True"
| "strict_eq (Str a) (Str b) = (a = b)"
| "strict_eq (ObjectId r a) (ObjectId s b) = (r = s)"
| "strict_eq (Document r a) (Document s b) = (r = s)"
| "strict_eq x y = False"

text \<open>
  An object handed to the policy functions: the fields of the record, and the run-time
  values of its id paths (\<open>_id\<close> of a user; \<open>createdBy\<close> and \<open>assignedTo\<close> of a
  task). \<open>uid\<close>, \<open>createdBy\<close> and \<open>assignedTo\<close> stay the values of the ids.
\<close>

record IUser = user +
  id_obj :: jsval

record ITask = task +
  createdBy_obj :: jsval
  assignedTo_obj :: jsval

text \<open>The plain objects of the unit tests (\<open>mockUser\<close>, \<open>mockTask\<close>): ids are strings.\<close>

definition plain_user :: "user \<Rightarrow> IUser" where
  "plain_user u = user.extend u (IUser.fields (Str (uid u)))"

definition plain_task :: "task \<Rightarrow> ITask" where
  "plain_task t =
     task.extend t
       (ITask.fields (Str (createdBy t))
          (case assignedTo t of None \<Rightarrow> Nullish | Some a \<Rightarrow> Str a))"

text \<open>
  The documents of one request. Every load makes new objects: \<open>req.user\<close> is the
  document \<open>authenticate\<close> loaded, its \<open>_id\<close> the object at address 0; the task a
  handler loads with \<open>Task.findById\<close> holds objects of its own, at addresses 1 and 2.
\<close>

definition req_user :: "user \<Rightarrow> IUser" where
  "req_user u = user.extend u (IUser.fields (ObjectId 0 (uid u)))"

definition loaded :: "task \<Rightarrow> ITask" where
  "loaded t =
     task.extend t
       (ITask.fields (ObjectId 1 (createdBy t))
          (case assignedTo t of None \<Rightarrow> Nullish | Some a \<Rightarrow> ObjectId 2 a))"

section \<open>Responses\<close>

datatype body =
    NoBody
  | TaskBody task
  | TasksBody "task list" nat
  | OverviewBody overview bool
  | ModifiedBody nat
  | RegisteredBody string user
  | UserBody user

record response =
  res_status :: nat
  res_code :: string
  res_body :: body

definition failure :: "nat \<Rightarrow> string \<Rightarrow> response" where
  "failure s c = \<lparr>res_status = s, res_code = c, res_body = NoBody\<rparr>"

definition success :: "nat \<Rightarrow> body \<Rightarrow> response" where
  "success s b = \<lparr>res_status = s, res_code = [], res_body = b\<rparr>"

section \<open>Access policy (src/utils/permissions.ts)\<close>

definition canAccessTask :: "IUser \<Rightarrow> ITask \<Rightarrow> bool" where
  "canAccessTask u t =
     (if role u = ''admin'' then True
      else if role u = ''manager'' \<and> truthy (team u) \<and> task_team t = team u then True
      else if strict_eq (createdBy_obj t) (id_obj u) \<or> strict_eq (assignedTo_obj t) (id_obj u)
      then True
      else False)"

text \<open>The other two read the role only, whatever the object's ids are.\<close>

definition canAssignTask :: "'a user_scheme \<Rightarrow> bool" where
  "canAssignTask u = (role u = ''admin'' \<or> role u = ''manager'')"

definition canAssignRole :: "'a user_scheme \<Rightarrow> string \<Rightarrow> bool" where
  "canAssignRole u targetRole =
     (if role u \<noteq> ''admin'' then False
      else if targetRole \<notin> set [''admin'', ''manager'', ''user''] then False
      else True)"

section \<open>Cache service (src/services/cacheService.ts)\<close>

definition cache_get :: "store \<Rightarrow> string \<Rightarrow> overview option" where
  "cache_get st k = (case redis st of None \<Rightarrow> None | Some kv \<Rightarrow> map_of kv k)"

definition cache_set :: "store \<Rightarrow> string \<Rightarrow> overview \<Rightarrow> store" where
  "cache_set st k v =
     (case redis st of
        None \<Rightarrow> st
      | Some kv \<Rightarrow> st\<lparr>redis := Some ((k, v) # filter (\<lambda>e. fst e \<noteq> k) kv)\<rparr>)"

text \<open>
  Every pattern the source passes to \<open>delPattern\<close> is a literal prefix followed by
  \<open>*\<close>; the argument here is that prefix. The time to live of an entry is not
  modelled: expiry can only remove entries.
\<close>

definition delPattern :: "string \<Rightarrow> store \<Rightarrow> store" where
  "delPattern p st =
     (case redis st of
        None \<Rightarrow> st
      | Some kv \<Rightarrow> st\<lparr>redis := Some (filter (\<lambda>e. take (length p) (fst e) \<noteq> p) kv)\<rparr>)"

definition invalidateTaskCaches :: "store \<Rightarrow> store" where
  "invalidateTaskCaches st = delPattern ''analytics:'' (delPattern ''tasks:'' st)"

fun getAnalyticsKey :: "string \<Rightarrow> string option \<Rightarrow> string" where
  "getAnalyticsKey ty None = ''analytics:'' @ ty"
| "getAnalyticsKey ty (Some i) =
     (if i = [] then ''analytics:'' @ ty else ''analytics:'' @ ty @ '':'' @ i)"

section \<open>Task documents (src/models/Task.model.ts)\<close>

text \<open>
  \<open>trim: true\<close> is \<open>String.prototype.trim\<close>; of the white space it strips, these are
  the characters below 256.
\<close>

definition is_space :: "char \<Rightarrow> bool" where
  "is_space c =
     (c \<in> set [CHR '' '', CHR 0x09, CHR 0x0A, CHR 0x0B, CHR 0x0C, CHR 0x0D, CHR 0xA0])"

definition trim :: "string \<Rightarrow> string" where
  "trim s = rev (dropWhile is_space (rev (dropWhile is_space s)))"

text \<open>The schema's setters (\<open>trim: true\<close>) and validators; \<open>True\<close> when the document passes.\<close>

definition task_trimmed :: "task \<Rightarrow> task" where
  "task_trimmed t =
     t\<lparr>title := trim (title t), description := map_option trim (description t),
       task_team := map_option trim (task_team t)\<rparr>"

definition task_valid :: "task \<Rightarrow> bool" where
  "task_valid t =
     (3 \<le> length (title t) \<and> length (title t) \<le> 200
      \<and> (case description t of None \<Rightarrow> True | Some d \<Rightarrow> length d \<le> 2000)
      \<and> priority t \<in> set [''low'', ''medium'', ''high'']
      \<and> status t \<in> set [''todo'', ''in-progress'', ''completed'', ''overdue''])"

text \<open>The pre-save hook: a past due date forces \<open>overdue\<close> unless the task is completed.\<close>

definition pre_save :: "int \<Rightarrow> task \<Rightarrow> task" where
  "pre_save now t =
     (case dueDate t of
        None \<Rightarrow> t
      | Some d \<Rightarrow> if d < now \<and> status t \<noteq> ''completed'' then t\<lparr>status := ''overdue''\<rparr> else t)"

text \<open>
  A string of a request that names a document is cast to an \<open>ObjectId\<close> before the
  store is asked: 24 hexadecimal digits, the form of every id in the tests and the API
  documentation, read without regard to case. Any other string makes the query throw a
  \<open>CastError\<close>, which a handler's \<open>catch\<close> turns into its 500.
\<close>

definition toLowerCase :: "string \<Rightarrow> string" where
  "toLowerCase s =
     map (\<lambda>c. let n = (of_char c :: nat) in if 65 \<le> n \<and> n \<le> 90 then char_of (n + 32) else c) s"

definition hex_char :: "char \<Rightarrow> bool" where
  "hex_char c =
     (let n = (of_char c :: nat)
      in (48 \<le> n \<and> n \<le> 57) \<or> (65 \<le> n \<and> n \<le> 70) \<or> (97 \<le> n \<and> n \<le> 102))"

definition isObjectId :: "string \<Rightarrow> bool" where
  "isObjectId s = (length s = 24 \<and> list_all hex_char s)"

definition castObjectId :: "string \<Rightarrow> string option" where
  "castObjectId s = (if isObjectId s then Some (toLowerCase s) else None)"

text \<open>A value of the request that is used as an id when it is truthy, and cannot be cast.\<close>

fun uncastable :: "string option \<Rightarrow> bool" where
  "uncastable None = False"
| "uncastable (Some v) = (v \<noteq> [] \<and> \<not> isObjectId v)"

datatype 'a queried = CastError | Result "'a option"

definition findById :: "store \<Rightarrow> string \<Rightarrow> task queried" where
  "findById st i =
     (case castObjectId i of
        None \<Rightarrow> CastError
      | Some v \<Rightarrow> Result (find (\<lambda>t. tid t = v) (tasks st)))"

text \<open>
  \<open>findUserById\<close> looks a user up by the value of an id; \<open>User_findById\<close> is
  \<open>User.findById\<close> on a string of the request, which is cast first.
\<close>

definition findUserById :: "store \<Rightarrow> string \<Rightarrow> user option" where
  "findUserById st i = find (\<lambda>u. uid u = i) (users st)"

definition User_findById :: "store \<Rightarrow> string \<Rightarrow> user queried" where
  "User_findById st i =
     (case castObjectId i of
        None \<Rightarrow> CastError
      | Some v \<Rightarrow> Result (findUserById st v))"

text \<open>
  \<open>task.save()\<close> on the loaded document \<open>orig\<close> after the handler's assignments:
  validation, then the hook, then the write; \<open>None\<close> is the \<open>ValidationError\<close>.
  Validation is of what the handler has assigned, so a document it has left as it was
  passes. When neither the handler nor the hook has changed anything, nothing is
  written and \<open>updatedAt\<close> stays.
\<close>

definition save :: "int \<Rightarrow> task \<Rightarrow> task \<Rightarrow> store \<Rightarrow> (task \<times> store) option" where
  "save now orig t st =
     (if t \<noteq> orig \<and> \<not> task_valid t then None
      else
        let t2 = pre_save now t in
        if t2 = orig then Some (orig, st)
        else
          let t3 = t2\<lparr>updatedAt := now\<rparr> in
          Some (t3, st\<lparr>tasks := map (\<lambda>x. if tid x = tid t3 then t3 else x) (tasks st)\<rparr>))"

definition deleteOne :: "task \<Rightarrow> store \<Rightarrow> store" where
  "deleteOne t st = st\<lparr>tasks := filter (\<lambda>x. tid x \<noteq> tid t) (tasks st)\<rparr>"

section \<open>Single-task handlers (task controller)\<close>

definition unauthorized :: response where
  "unauthorized = failure 401 ''UNAUTHORIZED''"

definition notFound :: response where
  "notFound = failure 404 ''NOT_FOUND''"

text \<open>
  \<open>populate('createdBy assignedTo', ...)\<close> puts the user's document in the place of
  each id (new objects, at addresses 3 and 4), or \<open>null\<close> when no such user is stored.
  \<open>getTaskById\<close> populates before it asks \<open>canAccessTask\<close>.
\<close>

definition populated :: "store \<Rightarrow> task \<Rightarrow> ITask" where
  "populated st t =
     task.extend t
       (ITask.fields
          (case findUserById st (createdBy t) of
             None \<Rightarrow> Nullish | Some c \<Rightarrow> Document 3 (uid c))
          (case assignedTo t of
             None \<Rightarrow> Nullish
           | Some a \<Rightarrow>
               (case findUserById st a of None \<Rightarrow> Nullish | Some c \<Rightarrow> Document 4 (uid c))))"

definition getTaskById :: "store \<Rightarrow> user option \<Rightarrow> string \<Rightarrow> response" where
  "getTaskById st requser i =
     (case requser of
        None \<Rightarrow> unauthorized
      | Some u \<Rightarrow>
          (case findById st i of
             CastError \<Rightarrow> failure 500 ''GET_TASK_ERROR''
           | Result None \<Rightarrow> notFound
           | Result (Some t) \<Rightarrow>
               if \<not> canAccessTask (req_user u) (populated st t) then notFound
               else success 200 (TaskBody t)))"

text \<open>
  A due date in a request body: left out (\<open>undefined\<close>), falsy (\<open>null\<close> or \<open>""\<close>), a
  string \<open>new Date\<close> cannot read, or a timestamp.
\<close>

datatype date_field = DUndefined | DFalsy | DInvalid | DTime int

record update_body =
  ub_title :: "string option"
  ub_description :: "string option"
  ub_dueDate :: date_field
  ub_priority :: "string option"
  ub_status :: "string option"

text \<open>\<open>if (v) doc.field = v\<close>: a falsy value leaves the field as it is.\<close>

fun set_if_truthy :: "string option \<Rightarrow> string \<Rightarrow> string" where
  "set_if_truthy None old = old"
| "set_if_truthy (Some v) old = (if v = [] then old else v)"

text \<open>
  The field assignments of \<open>updateTask\<close>; an assigned title or description goes
  through the schema's \<open>trim\<close> setter. \<open>None\<close> stands for a due date that cannot be
  cast, which \<open>save\<close> reports as a \<open>ValidationError\<close>.
\<close>

definition apply_update :: "update_body \<Rightarrow> task \<Rightarrow> task option" where
  "apply_update b t =
     (let t1 = when_truthy (ub_title b) (\<lambda>v x. x\<lparr>title := trim v\<rparr>) t;
          t2 = (case ub_description b of
                  None \<Rightarrow> t1
                | Some d \<Rightarrow> t1\<lparr>description := Some (trim d)\<rparr>);
          fin = (\<lambda>x. x\<lparr>priority := set_if_truthy (ub_priority b) (priority x),
                         status := set_if_truthy (ub_status b) (status x)\<rparr>)
      in case ub_dueDate b of
           DUndefined \<Rightarrow> Some (fin t2)
         | DFalsy \<Rightarrow> Some (fin (t2\<lparr>dueDate := None\<rparr>))
         | DInvalid \<Rightarrow> None
         | DTime d \<Rightarrow> Some (fin (t2\<lparr>dueDate := Some d\<rparr>)))"

definition updateTask ::
  "int \<Rightarrow> store \<Rightarrow> user option \<Rightarrow> string \<Rightarrow> update_body \<Rightarrow> response \<times> store" where
  "updateTask now st requser i b =
     (case requser of
        None \<Rightarrow> (unauthorized, st)
      | Some u \<Rightarrow>
          (case findById st i of
             CastError \<Rightarrow> (failure 500 ''UPDATE_TASK_ERROR'', st)
           | Result None \<Rightarrow> (notFound, st)
           | Result (Some t) \<Rightarrow>
               if \<not> canAccessTask (req_user u) (loaded t) then (notFound, st)
               else
                 (case apply_update b t of
                    None \<Rightarrow> (failure 400 ''VALIDATION_ERROR'', st)
                  | Some t' \<Rightarrow>
                      (case save now t t' st of
                         None \<Rightarrow> (failure 400 ''VALIDATION_ERROR'', st)
                       | Some (t'', st') \<Rightarrow>
                           (success 200 (TaskBody t''), invalidateTaskCaches st')))))"

definition deleteTask :: "store \<Rightarrow> user option \<Rightarrow> string \<Rightarrow> response \<times> store" where
  "deleteTask st requser i =
     (case requser of
        None \<Rightarrow> (unauthorized, st)
      | Some u \<Rightarrow>
          (case findById st i of
             CastError \<Rightarrow> (failure 500 ''DELETE_TASK_ERROR'', st)
           | Result None \<Rightarrow> (notFound, st)
           | Result (Some t) \<Rightarrow>
               if \<not> canAccessTask (req_user u) (loaded t) then (notFound, st)
               else (success 200 NoBody, invalidateTaskCaches (deleteOne t st))))"

section \<open>Creation and assignment (task controller)\<close>

record create_body =
  cb_title :: "string option"
  cb_description :: "string option"
  cb_dueDate :: date_field
  cb_priority :: "string option"
  cb_assignedTo :: "string option"
  cb_team :: "string option"

text \<open>
  \<open>Task.create\<close>: setters, validation, the pre-save hook, timestamps, insertion.
  The identifier of the new document is an argument (the store makes a new id, 24
  lower-case hexadecimal digits).
\<close>

definition create_doc :: "int \<Rightarrow> task \<Rightarrow> store \<Rightarrow> (task \<times> store) option" where
  "create_doc now t st =
     (let t1 = task_trimmed t in
      if \<not> task_valid t1 then None
      else
        let t2 = (pre_save now t1)\<lparr>createdAt := now, updatedAt := now\<rparr> in
        Some (t2, st\<lparr>tasks := tasks st @ [t2]\<rparr>))"

text \<open>
  \<open>createTask\<close> reads \<open>title\<close>, \<open>description\<close>, \<open>dueDate\<close>, \<open>priority\<close> and
  \<open>assignedTo\<close> from the body and nothing else; \<open>new_task\<close> is the object it hands to
  \<open>Task.create\<close>, its ids cast. A missing title fails the schema's \<open>required\<close> as the
  empty one does, and a due date or an assignee that cannot be cast is a
  \<open>ValidationError\<close>. The body's \<open>assignedTo\<close> is a string and \<open>req.user._id\<close> an
  object, so \<open>assignedTo !== req.user._id\<close> holds for every assignee the body names.
\<close>

definition new_task :: "string \<Rightarrow> int \<Rightarrow> user \<Rightarrow> create_body \<Rightarrow> task" where
  "new_task newId now u b =
     \<lparr>tid = newId,
      title = (case cb_title b of None \<Rightarrow> [] | Some s \<Rightarrow> s),
      description = cb_description b,
      dueDate = (case cb_dueDate b of DTime x \<Rightarrow> Some x | _ \<Rightarrow> None),
      priority = or_else (cb_priority b) ''medium'',
      status = ''todo'',
      createdBy = uid u,
      assignedTo = Some (or_else (map_option toLowerCase (cb_assignedTo b)) (uid u)),
      task_team = team u,
      createdAt = now,
      updatedAt = now\<rparr>"

definition createTask ::
  "string \<Rightarrow> int \<Rightarrow> store \<Rightarrow> user option \<Rightarrow> create_body \<Rightarrow> response \<times> store" where
  "createTask newId now st requser b =
     (case requser of
        None \<Rightarrow> (unauthorized, st)
      | Some u \<Rightarrow>
          if (case cb_assignedTo b of
                None \<Rightarrow> False
              | Some a \<Rightarrow> a \<noteq> [] \<and> \<not> strict_eq (Str a) (id_obj (req_user u)))
             \<and> \<not> canAssignTask u
          then (failure 403 ''FORBIDDEN'', st)
          else if cb_dueDate b = DInvalid \<or> uncastable (cb_assignedTo b)
          then (failure 400 ''VALIDATION_ERROR'', st)
          else
            (case create_doc now (new_task newId now u b) st of
               None \<Rightarrow> (failure 400 ''VALIDATION_ERROR'', st)
             | Some (t, st') \<Rightarrow> (success 201 (TaskBody t), invalidateTaskCaches st')))"

text \<open>
  \<open>assignTask\<close>: the body's \<open>assignedTo\<close> may be missing (\<open>None\<close>), which unsets the
  assignee; a string that cannot be cast fails \<open>save\<close>, which ends in the 500.
\<close>

definition assignTask ::
  "int \<Rightarrow> store \<Rightarrow> user option \<Rightarrow> string \<Rightarrow> string option \<Rightarrow> response \<times> store" where
  "assignTask now st requser i a =
     (case requser of
        None \<Rightarrow> (unauthorized, st)
      | Some u \<Rightarrow>
          if \<not> canAssignTask u then (failure 403 ''FORBIDDEN'', st)
          else
            (case findById st i of
               CastError \<Rightarrow> (failure 500 ''ASSIGN_TASK_ERROR'', st)
             | Result None \<Rightarrow> (notFound, st)
             | Result (Some t) \<Rightarrow>
                 if \<not> canAccessTask (req_user u) (loaded t) then (notFound, st)
                 else if (case a of None \<Rightarrow> False | Some v \<Rightarrow> \<not> isObjectId v)
                 then (failure 500 ''ASSIGN_TASK_ERROR'', st)
                 else
                   (case save now t (t\<lparr>assignedTo := map_option toLowerCase a\<rparr>) st of
                      None \<Rightarrow> (failure 500 ''ASSIGN_TASK_ERROR'', st)
                    | Some (t', st') \<Rightarrow> (success 200 (TaskBody t'), invalidateTaskCaches st'))))"

text \<open>
  \<open>Task.updateMany({_id: {$in: taskIds}}, {$set: {assignedTo}})\<close>: every document whose
  id is listed gets the assignee (and the timestamp Mongoose adds); the count is of the
  documents the write changed. \<open>taskIds\<close> is \<open>None\<close> when the body's value is not an array.
  The assignee and every listed id are cast; one that cannot be ends in the 500.
\<close>

definition updateMany_assignedTo :: "int \<Rightarrow> string list \<Rightarrow> string \<Rightarrow> store \<Rightarrow> nat \<times> store" where
  "updateMany_assignedTo now ids a st =
     (let upd = (\<lambda>t. if tid t \<in> set ids then t\<lparr>assignedTo := Some a, updatedAt := now\<rparr> else t)
      in (length (filter (\<lambda>t. upd t \<noteq> t) (tasks st)), st\<lparr>tasks := map upd (tasks st)\<rparr>))"

definition bulkAssignTasks ::
  "int \<Rightarrow> store \<Rightarrow> user option \<Rightarrow> string list option \<Rightarrow> string \<Rightarrow> response \<times> store" where
  "bulkAssignTasks now st requser taskIds a =
     (case requser of
        None \<Rightarrow> (unauthorized, st)
      | Some u \<Rightarrow>
          if \<not> canAssignTask u then (failure 403 ''FORBIDDEN'', st)
          else
            (case taskIds of
               None \<Rightarrow> (failure 400 ''INVALID_INPUT'', st)
             | Some ids \<Rightarrow>
                 if ids = [] then (failure 400 ''INVALID_INPUT'', st)
                 else
                   (case User_findById st a of
                      CastError \<Rightarrow> (failure 500 ''BULK_ASSIGN_ERROR'', st)
                    | Result None \<Rightarrow> (failure 404 ''USER_NOT_FOUND'', st)
                    | Result (Some assignee) \<Rightarrow>
                        if \<not> list_all isObjectId ids then (failure 500 ''BULK_ASSIGN_ERROR'', st)
                        else
                          (let (n, st') =
                                 updateMany_assignedTo now (map toLowerCase ids) (toLowerCase a) st
                           in (success 200 (ModifiedBody n), st')))))"

section \<open>Queries (task controller, analytics controller)\<close>

text \<open>
  The filter object the handlers build. Each field is one key of the JavaScript object:
  assigning to a key that is already set replaces its value, and a document matches when
  it satisfies every key that is set. \<open>q_or\<close> holds the id of
  \<open>$or: [{createdBy: id}, {assignedTo: id}]\<close>, \<open>q_text\<close> the compiled regular expression of
  the \<open>$and\<close> clause.
\<close>

record query =
  q_or :: "string option"
  q_team :: "string option"
  q_status :: "string list option"
  q_priority :: "string list option"
  q_text :: "(string \<Rightarrow> bool) option"
  q_assignedTo :: "string option"
  q_createdBy :: "string option"
  q_dueLte :: "int option"
  q_dueGte :: "int option"

definition empty_query :: query where
  "empty_query =
     \<lparr>q_or = None, q_team = None, q_status = None, q_priority = None, q_text = None,
      q_assignedTo = None, q_createdBy = None, q_dueLte = None, q_dueGte = None\<rparr>"

definition matches :: "query \<Rightarrow> task \<Rightarrow> bool" where
  "matches q t =
     ((case q_or q of None \<Rightarrow> True | Some i \<Rightarrow> createdBy t = i \<or> assignedTo t = Some i)
      \<and> (case q_team q of None \<Rightarrow> True | Some x \<Rightarrow> task_team t = Some x)
      \<and> (case q_status q of None \<Rightarrow> True | Some xs \<Rightarrow> status t \<in> set xs)
      \<and> (case q_priority q of None \<Rightarrow> True | Some xs \<Rightarrow> priority t \<in> set xs)
      \<and> (case q_text q of
            None \<Rightarrow> True
          | Some re \<Rightarrow> re (title t) \<or> (case description t of None \<Rightarrow> False | Some d \<Rightarrow> re d))
      \<and> (case q_assignedTo q of None \<Rightarrow> True | Some i \<Rightarrow> assignedTo t = Some i)
      \<and> (case q_createdBy q of None \<Rightarrow> True | Some i \<Rightarrow> createdBy t = i)
      \<and> (case q_dueLte q of
            None \<Rightarrow> True
          | Some d \<Rightarrow> (case dueDate t of None \<Rightarrow> False | Some x \<Rightarrow> x \<le> d))
      \<and> (case q_dueGte q of
            None \<Rightarrow> True
          | Some d \<Rightarrow> (case dueDate t of None \<Rightarrow> False | Some x \<Rightarrow> d \<le> x)))"

text \<open>
  The role-based block that opens \<open>getTasks\<close>, \<open>searchTasks\<close>, \<open>getOverview\<close> and
  \<open>getTasksByStatus\<close>, the same lines in each.
\<close>

definition baseQuery :: "user \<Rightarrow> query" where
  "baseQuery u =
     (if role u = ''user'' then empty_query\<lparr>q_or := Some (uid u)\<rparr>
      else if role u = ''manager'' \<and> truthy (team u) then empty_query\<lparr>q_team := team u\<rparr>
      else empty_query)"

definition countDocuments :: "store \<Rightarrow> query \<Rightarrow> nat" where
  "countDocuments st q = length (filter (matches q) (tasks st))"

text \<open>\<open>parseInt(x) || d\<close>: \<open>NaN\<close> (here \<open>None\<close>) and \<open>0\<close> give the default.\<close>

fun int_or :: "int option \<Rightarrow> int \<Rightarrow> int" where
  "int_or None d = d"
| "int_or (Some n) d = (if n = 0 then d else n)"

definition sort_tasks :: "string \<Rightarrow> bool \<Rightarrow> task list \<Rightarrow> task list" where
  "sort_tasks field asc xs =
     (let s = (if field = ''createdAt'' then sort_key createdAt xs
               else if field = ''updatedAt'' then sort_key updatedAt xs
               else if field = ''dueDate'' then sort_key dueDate xs
               else if field = ''priority'' then sort_key priority xs
               else if field = ''status'' then sort_key status xs
               else if field = ''title'' then sort_key title xs
               else xs)
      in if asc then s else rev s)"

text \<open>
  \<open>Task.find(query).skip(skip).limit(limit).sort(...)\<close>: the sort is applied first
  whatever its place in the chain; a negative skip is refused by the store (\<open>None\<close>),
  a negative limit is read as its absolute value.
\<close>

definition find_page :: "store \<Rightarrow> query \<Rightarrow> string \<Rightarrow> bool \<Rightarrow> int \<Rightarrow> int \<Rightarrow> task list option" where
  "find_page st q field asc skip limit =
     (if skip < 0 then None
      else Some (take (nat \<bar>limit\<bar>) (drop (nat skip) (sort_tasks field asc (filter (matches q) (tasks st))))))"

record list_params =
  lp_page :: "int option"
  lp_limit :: "int option"
  lp_status :: "string option"
  lp_priority :: "string option"
  lp_sortBy :: "string option"
  lp_order :: "string option"

definition getTasks_query :: "user \<Rightarrow> list_params \<Rightarrow> query" where
  "getTasks_query u p =
     when_truthy (lp_priority p) (\<lambda>v q. q\<lparr>q_priority := Some [v]\<rparr>)
       (when_truthy (lp_status p) (\<lambda>v q. q\<lparr>q_status := Some [v]\<rparr>) (baseQuery u))"

definition getTasks :: "store \<Rightarrow> user option \<Rightarrow> list_params \<Rightarrow> response" where
  "getTasks st requser p =
     (case requser of
        None \<Rightarrow> unauthorized
      | Some u \<Rightarrow>
          (let page = int_or (lp_page p) 1;
               limit = min (int_or (lp_limit p) 10) 100;
               sortBy = (case lp_sortBy p of None \<Rightarrow> ''createdAt'' | Some f \<Rightarrow> f);
               ord = (case lp_order p of None \<Rightarrow> ''desc'' | Some x \<Rightarrow> x);
               q = getTasks_query u p;
               skip = (page - 1) * limit
           in case find_page st q sortBy (ord = ''asc'') skip limit of
                None \<Rightarrow> failure 500 ''GET_TASKS_ERROR''
              | Some ts \<Rightarrow> success 200 (TasksBody ts (countDocuments st q))))"

fun split_on :: "char \<Rightarrow> string \<Rightarrow> string \<Rightarrow> string list" where
  "split_on c acc [] = [rev acc]"
| "split_on c acc (x # xs) = (if x = c then rev acc # split_on c [] xs else split_on c (x # acc) xs)"

definition split_comma :: "string \<Rightarrow> string list" where
  "split_comma s = split_on (CHR '','') [] s"

record search_params =
  sp_page :: "int option"
  sp_limit :: "int option"
  sp_q :: "string option"
  sp_status :: "string option"
  sp_priority :: "string option"
  sp_assignee :: "string option"
  sp_creator :: "string option"
  sp_team :: "string option"
  sp_dueBefore :: date_field
  sp_dueAfter :: date_field

text \<open>
  The filter of \<open>searchTasks\<close>, key by key in the order of the source. \<open>mkRegExp\<close>
  stands for \<open>new RegExp(q, 'i')\<close>, which throws on a malformed pattern (\<open>None\<close>); a
  due-date bound that cannot be read, or an assignee or creator that cannot be cast,
  makes the store refuse the query (\<open>None\<close>).
\<close>

definition searchTasks_query ::
  "(string \<Rightarrow> (string \<Rightarrow> bool) option) \<Rightarrow> user \<Rightarrow> search_params \<Rightarrow> query option" where
  "searchTasks_query mkRegExp u p =
     (let q0 = baseQuery u in
      case when_truthy (sp_q p)
             (\<lambda>v r. case mkRegExp v of None \<Rightarrow> None | Some re \<Rightarrow> Some (q0\<lparr>q_text := Some re\<rparr>))
             (Some q0) of
        None \<Rightarrow> None
      | Some q1 \<Rightarrow>
          (let q2 = when_truthy (sp_status p) (\<lambda>v q. q\<lparr>q_status := Some (split_comma v)\<rparr>) q1;
               q3 = when_truthy (sp_priority p) (\<lambda>v q. q\<lparr>q_priority := Some (split_comma v)\<rparr>) q2;
               q4 = when_truthy (sp_assignee p)
                      (\<lambda>v q. q\<lparr>q_assignedTo := Some (toLowerCase v)\<rparr>) q3;
               q5 = when_truthy (sp_creator p)
                      (\<lambda>v q. q\<lparr>q_createdBy := Some (toLowerCase v)\<rparr>) q4;
               q6 = when_truthy (sp_team p) (\<lambda>v q. q\<lparr>q_team := Some v\<rparr>) q5
           in if uncastable (sp_assignee p) \<or> uncastable (sp_creator p)
                 \<or> sp_dueBefore p = DInvalid \<or> sp_dueAfter p = DInvalid
              then None
              else
                Some (q6\<lparr>q_dueLte := (case sp_dueBefore p of DTime d \<Rightarrow> Some d | _ \<Rightarrow> None),
                          q_dueGte := (case sp_dueAfter p of DTime d \<Rightarrow> Some d | _ \<Rightarrow> None)\<rparr>)))"

definition searchTasks ::
  "(string \<Rightarrow> (string \<Rightarrow> bool) option) \<Rightarrow> store \<Rightarrow> user option \<Rightarrow> search_params \<Rightarrow> response" where
  "searchTasks mkRegExp st requser p =
     (case requser of
        None \<Rightarrow> unauthorized
      | Some u \<Rightarrow>
          (let page = int_or (sp_page p) 1;
               limit = min (int_or (sp_limit p) 10) 100;
               skip = (page - 1) * limit
           in case searchTasks_query mkRegExp u p of
                None \<Rightarrow> failure 500 ''SEARCH_ERROR''
              | Some q \<Rightarrow>
                  (case find_page st q ''createdAt'' False skip limit of
                     None \<Rightarrow> failure 500 ''SEARCH_ERROR''
                   | Some ts \<Rightarrow> success 200 (TasksBody ts (countDocuments st q)))))"

definition getOverview :: "store \<Rightarrow> user option \<Rightarrow> response \<times> store" where
  "getOverview st requser =
     (case requser of
        None \<Rightarrow> (unauthorized, st)
      | Some u \<Rightarrow>
          (let cacheKey = getAnalyticsKey ''overview'' (Some (uid u @ '':'' @ role u)) in
           case cache_get st cacheKey of
             Some cachedData \<Rightarrow> (success 200 (OverviewBody cachedData True), st)
           | None \<Rightarrow>
               (let q = baseQuery u;
                    result =
                      \<lparr>totalTasks = countDocuments st q,
                       completed = countDocuments st (q\<lparr>q_status := Some [''completed'']\<rparr>),
                       pending = countDocuments st (q\<lparr>q_status := Some [''todo'', ''in-progress'']\<rparr>),
                       overdue = countDocuments st (q\<lparr>q_status := Some [''overdue'']\<rparr>)\<rparr>
                in (success 200 (OverviewBody result False), cache_set st cacheKey result))))"

section \<open>Identity (utils/tokenManager, middleware/auth.middleware.ts, auth controller)\<close>

record JwtPayload =
  jp_userId :: string
  jp_email :: string
  jp_role :: string

text \<open>
  The libraries the code calls, as functions of a record: \<open>jwt_verify\<close> is
  \<open>jwt.verify\<close> under the configured secret at the time of the request (\<open>None\<close>
  when it throws), \<open>jwt_decode_exp\<close> the \<open>exp\<close> of \<open>jwt.decode\<close>, \<open>jwt_sign\<close>
  is \<open>jwt.sign\<close>, \<open>bcrypt_hash\<close> the salted hash, \<open>email_match\<close> the e-mail pattern
  of the user schema.
\<close>

record lib =
  jwt_verify :: "string \<Rightarrow> JwtPayload option"
  jwt_decode_exp :: "string \<Rightarrow> int option"
  jwt_sign :: "JwtPayload \<Rightarrow> string"
  bcrypt_hash :: "string \<Rightarrow> string"
  email_match :: "string \<Rightarrow> bool"

definition verifyToken :: "lib \<Rightarrow> string \<Rightarrow> JwtPayload option" where
  "verifyToken l token = jwt_verify l token"

definition isTokenBlacklisted :: "store \<Rightarrow> string \<Rightarrow> bool" where
  "isTokenBlacklisted st token = (find (\<lambda>x. x = token) (blacklist st) \<noteq> None)"

definition extractTokenFromHeader :: "string option \<Rightarrow> string option" where
  "extractTokenFromHeader authHeader =
     (case authHeader of
        None \<Rightarrow> None
      | Some h \<Rightarrow> if h = [] \<or> take 7 h \<noteq> ''Bearer '' then None else Some (drop 7 h))"

text \<open>The middleware either answers itself or calls \<open>next()\<close> with \<open>req.user\<close> set.\<close>

datatype auth_result = Rejected response | Next user

definition authenticate :: "lib \<Rightarrow> store \<Rightarrow> string option \<Rightarrow> auth_result" where
  "authenticate l st authHeader =
     (case extractTokenFromHeader authHeader of
        None \<Rightarrow> Rejected (failure 401 ''NO_TOKEN'')
      | Some token \<Rightarrow>
          if token = [] then Rejected (failure 401 ''NO_TOKEN'')
          else if isTokenBlacklisted st token then Rejected (failure 401 ''TOKEN_BLACKLISTED'')
          else
            (case verifyToken l token of
               None \<Rightarrow> Rejected (failure 401 ''INVALID_TOKEN'')
             | Some decoded \<Rightarrow>
                 (case findUserById st (jp_userId decoded) of
                    None \<Rightarrow> Rejected (failure 401 ''USER_NOT_FOUND'')
                  | Some u \<Rightarrow> Next u)))"

text \<open>
  \<open>blacklistToken\<close> throws when the token has no \<open>exp\<close>, and the unique index on
  \<open>token\<close> makes a second insertion of the same token throw; \<open>logout\<close> turns both
  into its 500.
\<close>

definition blacklistToken :: "lib \<Rightarrow> string \<Rightarrow> store \<Rightarrow> store option" where
  "blacklistToken l token st =
     (case jwt_decode_exp l token of
        None \<Rightarrow> None
      | Some e \<Rightarrow>
          if e = 0 \<or> token \<in> set (blacklist st) then None
          else Some (st\<lparr>blacklist := blacklist st @ [token]\<rparr>))"

definition logout :: "lib \<Rightarrow> store \<Rightarrow> string option \<Rightarrow> response \<times> store" where
  "logout l st authHeader =
     (case extractTokenFromHeader authHeader of
        None \<Rightarrow> (failure 401 ''NO_TOKEN'', st)
      | Some token \<Rightarrow>
          if token = [] then (failure 401 ''NO_TOKEN'', st)
          else
            (case blacklistToken l token st of
               None \<Rightarrow> (failure 500 ''LOGOUT_ERROR'', st)
             | Some st' \<Rightarrow> (success 200 NoBody, st')))"

definition word_char :: "char \<Rightarrow> bool" where
  "word_char c =
     (let n = (of_char c :: nat)
      in (48 \<le> n \<and> n \<le> 57) \<or> (65 \<le> n \<and> n \<le> 90) \<or> (97 \<le> n \<and> n \<le> 122) \<or> n = 95)"

record register_body =
  rb_username :: string
  rb_email :: string
  rb_password :: string
  rb_role :: "string option"
  rb_team :: "string option"

text \<open>The validators of the user schema, on the document after its setters.\<close>

definition user_valid :: "lib \<Rightarrow> string \<Rightarrow> user \<Rightarrow> bool" where
  "user_valid l plain u =
     (3 \<le> length (username u) \<and> length (username u) \<le> 30 \<and> list_all word_char (username u)
      \<and> email u \<noteq> [] \<and> email_match l (email u)
      \<and> 8 \<le> length plain
      \<and> role u \<in> set [''admin'', ''manager'', ''user''])"

text \<open>
  \<open>register\<close>. \<open>assignedRole\<close> is the source's constant of that name and
  \<open>new_user\<close> the document \<open>User.create\<close> builds from its argument (setters applied,
  password hashed); the identifier of the new document is an argument. The filter of
  the check for an existing user goes through the same setters as the document
  (\<open>lowercase\<close> and \<open>trim\<close> on the e-mail address, \<open>trim\<close> on the user name), so a
  document that passes the check and validation breaks no unique index.
\<close>

definition assignedRole :: "string option \<Rightarrow> string" where
  "assignedRole r =
     (if (case r of None \<Rightarrow> False | Some x \<Rightarrow> x \<noteq> [] \<and> x \<in> set [''admin'', ''manager''])
      then ''user'' else or_else r ''user'')"

definition new_user :: "lib \<Rightarrow> string \<Rightarrow> register_body \<Rightarrow> user" where
  "new_user l newId b =
     \<lparr>uid = newId,
      username = trim (rb_username b),
      email = trim (toLowerCase (rb_email b)),
      password = bcrypt_hash l (rb_password b),
      role = assignedRole (rb_role b),
      team = map_option trim (rb_team b),
      isEmailVerified = False\<rparr>"

definition register :: "lib \<Rightarrow> string \<Rightarrow> store \<Rightarrow> register_body \<Rightarrow> response \<times> store" where
  "register l newId st b =
     (case find (\<lambda>x. email x = trim (toLowerCase (rb_email b))
                       \<or> username x = trim (rb_username b)) (users st) of
        Some existingUser \<Rightarrow> (failure 400 ''USER_EXISTS'', st)
      | None \<Rightarrow>
          (let u = new_user l newId b
           in if \<not> user_valid l (rb_password b) u then (failure 400 ''VALIDATION_ERROR'', st)
              else
                (success 201
                   (RegisteredBody
                      (jwt_sign l \<lparr>jp_userId = uid u, jp_email = email u, jp_role = role u\<rparr>) u),
                 st\<lparr>users := users st @ [u]\<rparr>)))"

text \<open>
  \<open>updateUserRole\<close>. The body's \<open>role\<close> may be missing (\<open>None\<close>), which
  \<open>validRoles.includes\<close> rejects. The self-change test is
  \<open>user._id.toString() === req.user._id\<close>: a string on the left, the \<open>_id\<close> of the
  document \<open>authenticate\<close> attached on the right.
\<close>

definition updateUserRole ::
  "store \<Rightarrow> user option \<Rightarrow> string \<Rightarrow> string option \<Rightarrow> response \<times> store" where
  "updateUserRole st requser userId newRole =
     (case requser of
        None \<Rightarrow> (failure 401 ''NOT_AUTHENTICATED'', st)
      | Some u \<Rightarrow>
          (case newRole of
             None \<Rightarrow> (failure 403 ''FORBIDDEN'', st)
           | Some r \<Rightarrow>
               if \<not> canAssignRole u r then (failure 403 ''FORBIDDEN'', st)
               else
                 (case User_findById st userId of
                    CastError \<Rightarrow> (failure 500 ''UPDATE_ROLE_ERROR'', st)
                  | Result None \<Rightarrow> (failure 404 ''USER_NOT_FOUND'', st)
                  | Result (Some target) \<Rightarrow>
                      if strict_eq (Str (uid target)) (id_obj (req_user u))
                      then (failure 400 ''SELF_ROLE_CHANGE'', st)
                      else
                        (let target' = target\<lparr>role := r\<rparr>
                         in (success 200 (UserBody target'),
                             st\<lparr>users :=
                                  map (\<lambda>x. if uid x = uid target' then target' else x) (users st)\<rparr>)))))"

section \<open>Fixtures (tests/setup/testHelpers.ts)\<close>

definition mockUser :: user where
  "mockUser =
     \<lparr>uid = ''60d5ecb8b392f045c8d67392'', username = ''testuser'', email = ''test@example.com'',
      password = [], role = ''user'', team = Some ''Engineering'', isEmailVerified = False\<rparr>"

definition mockAdminUser :: user where
  "mockAdminUser =
     mockUser\<lparr>uid := ''60d5ecb8b392f045c8d67391'', username := ''admin'',
              email := ''admin@example.com'', role := ''admin''\<rparr>"

definition mockManagerUser :: user where
  "mockManagerUser =
     mockUser\<lparr>uid := ''60d5ecb8b392f045c8d67390'', username := ''manager'',
              email := ''manager@example.com'', role := ''manager''\<rparr>"

definition mockTask :: task where
  "mockTask =
     \<lparr>tid = ''60d5ecb8b392f045c8d67393'', title = ''Test Task'',
      description = Some ''Test task description'', dueDate = Some 604800000,
      priority = ''medium'', status = ''todo'', createdBy = ''60d5ecb8b392f045c8d67392'',
      assignedTo = None, task_team = Some ''Engineering'', createdAt = 0, updatedAt = 0\<rparr>"

text \<open>A task of another team, made and held by others, and a store that holds it.\<close>

definition salesTask :: task where
  "salesTask =
     mockTask\<lparr>task_team := Some ''Sales'', createdBy := ''60d5ecb8b392f045c8d67395'',
              assignedTo := Some ''60d5ecb8b392f045c8d67396''\<rparr>"

definition salesStore :: store where
  "salesStore =
     \<lparr>tasks = [salesTask], users = [mockUser, mockAdminUser, mockManagerUser],
      blacklist = [], redis = Some []\<rparr>"

text \<open>Requests without filters, and the registration payload of the integration tests.\<close>

definition noSearchParams :: search_params where
  "noSearchParams =
     \<lparr>sp_page = None, sp_limit = None, sp_q = None, sp_status = None, sp_priority = None,
      sp_assignee = None, sp_creator = None, sp_team = None,
      sp_dueBefore = DUndefined, sp_dueAfter = DUndefined\<rparr>"

definition noListParams :: list_params where
  "noListParams =
     \<lparr>lp_page = None, lp_limit = None, lp_status = None, lp_priority = None,
      lp_sortBy = None, lp_order = None\<rparr>"

definition validUser :: register_body where
  "validUser =
     \<lparr>rb_username = ''testuser'', rb_email = ''test@example.com'',
      rb_password = ''Test123!@#'', rb_role = None, rb_team = None\<rparr>"

text \<open>
  Stand-ins for the libraries where a value has to be computed: a token is the user id
  it was signed for, it verifies when it is not empty, and it expires at time 1.
\<close>

definition testLib :: lib where
  "testLib =
     \<lparr>jwt_verify = (\<lambda>t. if t = [] then None
                        else Some \<lparr>jp_userId = t, jp_email = [], jp_role = []\<rparr>),
      jwt_decode_exp = (\<lambda>t. if t = [] then None else Some 1),
      jwt_sign = jp_userId,
      bcrypt_hash = (\<lambda>pw. ''$2a$10$'' @ pw),
      email_match = (\<lambda>e. CHR ''@'' \<in> set e)\<rparr>"

definition emptyStore :: store where
  "emptyStore = \<lparr>tasks = [], users = [], blacklist = [], redis = Some []\<rparr>"

text \<open>
  The Sales store after \<open>mockUser\<close> has read the overview (nothing is theirs, and the
  zeros are cached under their key), and the same store once the Sales task has been
  handed to them at time 5.
\<close>

definition cachedStore :: store where
  "cachedStore =
     salesStore\<lparr>redis :=
       Some [(''analytics:overview:60d5ecb8b392f045c8d67392:user'',
              \<lparr>totalTasks = 0, completed = 0, pending = 0, overdue = 0\<rparr>)]\<rparr>"

definition reassignedStore :: store where
  "reassignedStore =
     cachedStore\<lparr>tasks := [salesTask\<lparr>assignedTo := Some (uid mockUser), updatedAt := 5\<rparr>]\<rparr>"

text \<open>The task body of the access-control tests, with a team of its own added.\<close>

definition userTaskBody :: create_body where
  "userTaskBody =
     \<lparr>cb_title = Some ''User Task'', cb_description = Some ''Created by user'',
      cb_dueDate = DUndefined, cb_priority = Some ''low'', cb_assignedTo = None,
      cb_team = Some ''Sales''\<rparr>"

text \<open>
  A store with the task \<open>mockUser\<close> created and a task of the admin's that
  \<open>mockUser\<close> holds; an update that changes nothing; the id of no task; a store with
  users only, and the id its first task gets.
\<close>

definition heldTask :: task where
  "heldTask =
     mockTask\<lparr>tid := ''60d5ecb8b392f045c8d67397'', task_team := Some ''Sales'',
              createdBy := ''60d5ecb8b392f045c8d67391'',
              assignedTo := Some ''60d5ecb8b392f045c8d67392''\<rparr>"

definition ownStore :: store where
  "ownStore =
     \<lparr>tasks = [mockTask, heldTask], users = [mockUser, mockAdminUser, mockManagerUser],
      blacklist = [], redis = Some []\<rparr>"

definition noUpdate :: update_body where
  "noUpdate =
     \<lparr>ub_title = None, ub_description = None, ub_dueDate = DUndefined, ub_priority = None,
      ub_status = None\<rparr>"

definition missingId :: string where
  "missingId = ''60d5ecb8b392f045c8d67399''"

definition usersStore :: store where
  "usersStore =
     \<lparr>tasks = [], users = [mockUser, mockAdminUser, mockManagerUser], blacklist = [],
      redis = Some []\<rparr>"

definition newTaskId :: string where
  "newTaskId = ''60d5ecb8b392f045c8d67394''"

text \<open>The task \<open>mockUser\<close> creates at time 5 from that body, and the store that holds it.\<close>

definition createdTask :: task where
  "createdTask = new_task newTaskId 5 mockUser userTaskBody"

definition createdStore :: store where
  "createdStore = usersStore\<lparr>tasks := [createdTask]\<rparr>"

section \<open>Responses are told apart by status and code\<close>

lemma notFound_neq_success: "(notFound = success s b) = False" "(success s b = notFound) = False"
  by (auto simp: notFound_def failure_def success_def)

lemma notFound_eq_failure:
  "(notFound = failure s c) = (s = 404 \<and> c = ''NOT_FOUND'')"
  "(failure s c = notFound) = (s = 404 \<and> c = ''NOT_FOUND'')"
  by (auto simp: notFound_def failure_def)

lemma res_status_simps:
  "res_status (failure s c) = s" "res_status (success s b) = s" "res_status notFound = 404"
  "res_status unauthorized = 401"
  by (simp_all add: failure_def success_def notFound_def unauthorized_def)

lemmas fixtures =
  mockUser_def mockAdminUser_def mockManagerUser_def mockTask_def salesTask_def salesStore_def
  noSearchParams_def noListParams_def validUser_def testLib_def emptyStore_def
  cachedStore_def reassignedStore_def userTaskBody_def heldTask_def ownStore_def noUpdate_def
  missingId_def usersStore_def newTaskId_def

lemmas query_defs =
  baseQuery_def empty_query_def matches_def countDocuments_def find_page_def sort_tasks_def

section \<open>Run-time objects and casts\<close>

lemma req_user_simps [simp]:
  "uid (req_user u) = uid u" "role (req_user u) = role u" "team (req_user u) = team u"
  "id_obj (req_user u) = ObjectId 0 (uid u)"
  by (simp_all add: req_user_def user.defs IUser.defs)

lemma plain_user_simps [simp]:
  "uid (plain_user u) = uid u" "role (plain_user u) = role u" "team (plain_user u) = team u"
  "id_obj (plain_user u) = Str (uid u)"
  by (simp_all add: plain_user_def user.defs IUser.defs)

lemma loaded_simps [simp]:
  "task_team (loaded t) = task_team t"
  "createdBy_obj (loaded t) = ObjectId 1 (createdBy t)"
  "assignedTo_obj (loaded t) = (case assignedTo t of None \<Rightarrow> Nullish | Some a \<Rightarrow> ObjectId 2 a)"
  by (simp_all add: loaded_def task.defs ITask.defs)

lemma plain_task_simps [simp]:
  "task_team (plain_task t) = task_team t"
  "createdBy_obj (plain_task t) = Str (createdBy t)"
  "assignedTo_obj (plain_task t) = (case assignedTo t of None \<Rightarrow> Nullish | Some a \<Rightarrow> Str a)"
  by (simp_all add: plain_task_def task.defs ITask.defs)

lemma populated_simps [simp]:
  "task_team (populated st t) = task_team t"
  "createdBy_obj (populated st t) =
     (case findUserById st (createdBy t) of None \<Rightarrow> Nullish | Some c \<Rightarrow> Document 3 (uid c))"
  "assignedTo_obj (populated st t) =
     (case assignedTo t of
        None \<Rightarrow> Nullish
      | Some a \<Rightarrow> (case findUserById st a of None \<Rightarrow> Nullish | Some c \<Rightarrow> Document 4 (uid c)))"
  by (simp_all add: populated_def task.defs ITask.defs)

text \<open>The ids of the fixtures are well formed and in lower case.\<close>

lemma fixture_ids:
  "castObjectId ''60d5ecb8b392f045c8d67390'' = Some ''60d5ecb8b392f045c8d67390''"
  "castObjectId ''60d5ecb8b392f045c8d67391'' = Some ''60d5ecb8b392f045c8d67391''"
  "castObjectId ''60d5ecb8b392f045c8d67392'' = Some ''60d5ecb8b392f045c8d67392''"
  "castObjectId ''60d5ecb8b392f045c8d67393'' = Some ''60d5ecb8b392f045c8d67393''"
  "castObjectId ''60d5ecb8b392f045c8d67394'' = Some ''60d5ecb8b392f045c8d67394''"
  "castObjectId ''60d5ecb8b392f045c8d67397'' = Some ''60d5ecb8b392f045c8d67397''"
  "castObjectId ''60d5ecb8b392f045c8d67399'' = Some ''60d5ecb8b392f045c8d67399''"
  by (simp_all add: castObjectId_def isObjectId_def hex_char_def toLowerCase_def)

lemma fixture_ids_cast:
  "isObjectId ''60d5ecb8b392f045c8d67392''" "isObjectId ''60d5ecb8b392f045c8d67393''"
  "toLowerCase ''60d5ecb8b392f045c8d67392'' = ''60d5ecb8b392f045c8d67392''"
  "toLowerCase ''60d5ecb8b392f045c8d67393'' = ''60d5ecb8b392f045c8d67393''"
  by (simp_all add: isObjectId_def hex_char_def toLowerCase_def)

section \<open>The single-task access predicate\<close>

text \<open>
  On the plain objects of the unit tests, whose ids are strings, \<open>canAccessTask\<close> is
  the four-way rule.
\<close>

lemma canAccessTask_plain_iff:
  "canAccessTask (plain_user p) (plain_task t) \<longleftrightarrow>
     role p = ''admin''
     \<or> (role p = ''manager'' \<and> (\<exists>l. l \<noteq> [] \<and> team p = Some l \<and> task_team t = Some l))
     \<or> createdBy t = uid p
     \<or> assignedTo t = Some (uid p)"
proof (cases "team p")
  case None
  then show ?thesis by (cases "assignedTo t") (simp_all add: canAccessTask_def)
next
  case (Some l)
  then show ?thesis by (cases "assignedTo t") (auto simp: canAccessTask_def)
qed

text \<open>
  On the documents a handler holds, the ids are objects of different loads, \<open>===\<close>
  never holds between them, and only the first two branches are left.
\<close>

lemma canAccessTask_documents_iff:
  "canAccessTask (req_user p) (loaded t) \<longleftrightarrow>
     role p = ''admin''
     \<or> (role p = ''manager'' \<and> (\<exists>l. l \<noteq> [] \<and> team p = Some l \<and> task_team t = Some l))"
proof (cases "team p")
  case None
  then show ?thesis by (cases "assignedTo t") (simp_all add: canAccessTask_def)
next
  case (Some l)
  then show ?thesis by (cases "assignedTo t") (auto simp: canAccessTask_def)
qed

lemma canAccessTask_populated:
  "canAccessTask (req_user p) (populated st t) = canAccessTask (req_user p) (loaded t)"
  by (simp add: canAccessTask_def split: option.splits)

text \<open>Reading, updating and deleting one task apply this predicate and no other.\<close>

lemma getTaskById_access:
  "getTaskById st (Some p) i =
     (case findById st i of
        CastError \<Rightarrow> failure 500 ''GET_TASK_ERROR''
      | Result None \<Rightarrow> notFound
      | Result (Some x) \<Rightarrow>
          if canAccessTask (req_user p) (loaded x) then success 200 (TaskBody x) else notFound)"
  by (simp add: getTaskById_def canAccessTask_populated split: queried.splits option.splits)

lemma updateTask_access:
  "(fst (updateTask now st (Some p) i b) = notFound) =
     (case findById st i of
        CastError \<Rightarrow> False
      | Result None \<Rightarrow> True
      | Result (Some x) \<Rightarrow> \<not> canAccessTask (req_user p) (loaded x))"
  by (simp add: updateTask_def notFound_neq_success notFound_eq_failure
      split: queried.splits option.splits prod.splits)

lemma deleteTask_access:
  "(fst (deleteTask st (Some p) i) = notFound) =
     (case findById st i of
        CastError \<Rightarrow> False
      | Result None \<Rightarrow> True
      | Result (Some x) \<Rightarrow> \<not> canAccessTask (req_user p) (loaded x))"
  by (simp add: deleteTask_def notFound_neq_success notFound_eq_failure
      split: queried.splits option.splits)

text \<open>A principal of role \<open>user\<close> passes for no stored task, their own included.\<close>

lemma role_user_reads_no_task:
  assumes "role p = ''user''" and "isObjectId i"
  shows "getTaskById st (Some p) i = notFound"
  using assms
  by (simp add: getTaskById_access canAccessTask_documents_iff findById_def castObjectId_def
      split: option.splits)

text \<open>
  C1. The claim: \<open>canAccessTask\<close> holds exactly when the principal is an admin, a
  manager of the task's team, the task's creator or its assignee, and this is the
  predicate of the single-task read, update and delete. On the plain objects of the
  unit tests it is so: \<open>mockUser\<close> passes for the task they created and for the task
  they hold. The handlers hand the predicate Mongoose documents, and there the creator
  and assignee branches compare two objects with \<open>===\<close>: \<open>mockUser\<close> fails for both
  tasks, and reading, updating and deleting their own task is answered with the 404 of
  a missing task, where the admin reads it.
\<close>

theorem owner_is_denied_their_own_task:
  "canAccessTask (plain_user mockUser) (plain_task mockTask)
   \<and> canAccessTask (plain_user mockUser) (plain_task heldTask)
   \<and> findById ownStore (tid mockTask) = Result (Some mockTask)
   \<and> createdBy mockTask = uid mockUser
   \<and> findById ownStore (tid heldTask) = Result (Some heldTask)
   \<and> assignedTo heldTask = Some (uid mockUser)
   \<and> \<not> canAccessTask (req_user mockUser) (loaded mockTask)
   \<and> \<not> canAccessTask (req_user mockUser) (populated ownStore mockTask)
   \<and> \<not> canAccessTask (req_user mockUser) (loaded heldTask)
   \<and> \<not> canAccessTask (req_user mockUser) (populated ownStore heldTask)
   \<and> getTaskById ownStore (Some mockUser) (tid mockTask) = notFound
   \<and> getTaskById ownStore (Some mockUser) (tid heldTask) = notFound
   \<and> updateTask 5 ownStore (Some mockUser) (tid mockTask) noUpdate = (notFound, ownStore)
   \<and> updateTask 5 ownStore (Some mockUser) (tid heldTask) noUpdate = (notFound, ownStore)
   \<and> deleteTask ownStore (Some mockUser) (tid mockTask) = (notFound, ownStore)
   \<and> deleteTask ownStore (Some mockUser) (tid heldTask) = (notFound, ownStore)
   \<and> getTaskById ownStore (Some mockAdminUser) (tid mockTask) = success 200 (TaskBody mockTask)"
  by (simp add: getTaskById_def updateTask_def deleteTask_def findById_def findUserById_def
      canAccessTask_def fixture_ids fixtures)

section \<open>The scope of lists and searches\<close>

lemma find_page_subset:
  "find_page st q f asc skip limit = Some ts \<Longrightarrow> set ts \<subseteq> {t \<in> set (tasks st). matches q t}"
  by (auto simp: find_page_def sort_tasks_def Let_def split: if_splits
      dest!: in_set_takeD in_set_dropD)

lemma matches_getTasks_query:
  "matches (getTasks_query u p) t \<Longrightarrow> matches (baseQuery u) t"
  by (cases "lp_status p"; cases "lp_priority p")
     (auto simp: getTasks_query_def baseQuery_def matches_def empty_query_def split: if_splits)

text \<open>The list keeps to the role scope whatever the request's parameters.\<close>

lemma getTasks_within_scope:
  assumes "getTasks st (Some u) p = success 200 (TasksBody ts n)"
  shows "set ts \<subseteq> {t \<in> set (tasks st). matches (baseQuery u) t}"
proof -
  from assms obtain f asc skip limit where
    "find_page st (getTasks_query u p) f asc skip limit = Some ts"
    by (auto simp: getTasks_def Let_def success_def failure_def split: option.splits)
  from find_page_subset [OF this] show ?thesis
    by (auto dest: matches_getTasks_query)
qed

lemma when_truthy_keeps: "(\<And>s y. g (f s y) = g y) \<Longrightarrow> g (when_truthy v f x) = g x"
  by (cases v) auto

lemma text_step_keeps:
  assumes "when_truthy v
             (\<lambda>s r. case mk s of None \<Rightarrow> None | Some re \<Rightarrow> Some (q0\<lparr>q_text := Some re\<rparr>))
             (Some q0) = Some q1"
  shows "q_or q1 = q_or q0 \<and> q_team q1 = q_team q0"
  using assms by (cases v) (auto split: if_splits option.splits)

text \<open>
  What \<open>searchTasks\<close> does to the two keys of the role scope: \<open>$or\<close> is never
  touched, \<open>team\<close> is whatever a truthy \<open>team\<close> parameter says.
\<close>

lemma searchTasks_query_keys:
  assumes "searchTasks_query mk u p = Some q"
  shows "q_or q = q_or (baseQuery u)"
    and "q_team q = (if truthy (sp_team p) then sp_team p else q_team (baseQuery u))"
proof -
  from assms obtain q1 where
    q1: "when_truthy (sp_q p)
           (\<lambda>s r. case mk s of None \<Rightarrow> None | Some re \<Rightarrow> Some ((baseQuery u)\<lparr>q_text := Some re\<rparr>))
           (Some (baseQuery u)) = Some q1"
    and q: "q = (when_truthy (sp_team p) (\<lambda>v q. q\<lparr>q_team := Some v\<rparr>)
                 (when_truthy (sp_creator p) (\<lambda>v q. q\<lparr>q_createdBy := Some (toLowerCase v)\<rparr>)
                   (when_truthy (sp_assignee p) (\<lambda>v q. q\<lparr>q_assignedTo := Some (toLowerCase v)\<rparr>)
                     (when_truthy (sp_priority p) (\<lambda>v q. q\<lparr>q_priority := Some (split_comma v)\<rparr>)
                       (when_truthy (sp_status p) (\<lambda>v q. q\<lparr>q_status := Some (split_comma v)\<rparr>)
                          q1)))))
           \<lparr>q_dueLte := (case sp_dueBefore p of DTime d \<Rightarrow> Some d | _ \<Rightarrow> None),
            q_dueGte := (case sp_dueAfter p of DTime d \<Rightarrow> Some d | _ \<Rightarrow> None)\<rparr>"
    by (auto simp: searchTasks_query_def Let_def split: option.splits if_splits)
  from text_step_keeps [OF q1]
  have k: "q_or q1 = q_or (baseQuery u)" "q_team q1 = q_team (baseQuery u)"
    by simp_all
  show "q_or q = q_or (baseQuery u)"
    by (simp add: q when_truthy_keeps [where g = q_or] k)
  show "q_team q = (if truthy (sp_team p) then sp_team p else q_team (baseQuery u))"
    by (cases "sp_team p") (simp_all add: q when_truthy_keeps [where g = q_team] k)
qed

lemma matches_scope_keys:
  "matches q t \<Longrightarrow>
     (case q_or q of None \<Rightarrow> True | Some i \<Rightarrow> createdBy t = i \<or> assignedTo t = Some i)
     \<and> (case q_team q of None \<Rightarrow> True | Some x \<Rightarrow> task_team t = Some x)"
  by (simp add: matches_def)

lemma matches_baseQuery:
  "matches (baseQuery u) t \<longleftrightarrow>
     (case q_or (baseQuery u) of None \<Rightarrow> True | Some i \<Rightarrow> createdBy t = i \<or> assignedTo t = Some i)
     \<and> (case q_team (baseQuery u) of None \<Rightarrow> True | Some x \<Rightarrow> task_team t = Some x)"
  by (simp add: matches_def baseQuery_def empty_query_def)

lemma baseQuery_team_None: "role u \<noteq> ''manager'' \<Longrightarrow> q_team (baseQuery u) = None"
  by (simp add: baseQuery_def empty_query_def)

lemma matches_searchTasks_query:
  assumes "searchTasks_query mk u p = Some q" and "matches q t"
    and "role u \<noteq> ''manager'' \<or> \<not> truthy (sp_team p)"
  shows "matches (baseQuery u) t"
proof -
  note k = searchTasks_query_keys [OF assms(1)]
  from matches_scope_keys [OF assms(2)] k(1)
  have o: "case q_or (baseQuery u) of
             None \<Rightarrow> True
           | Some i \<Rightarrow> createdBy t = i \<or> assignedTo t = Some i"
    by simp
  have "case q_team (baseQuery u) of None \<Rightarrow> True | Some x \<Rightarrow> task_team t = Some x"
  proof (cases "truthy (sp_team p)")
    case True
    with assms(3) have "role u \<noteq> ''manager''" by simp
    then show ?thesis by (simp add: baseQuery_team_None)
  next
    case False
    with matches_scope_keys [OF assms(2)] k(2) show ?thesis by simp
  qed
  with o show ?thesis by (simp add: matches_baseQuery)
qed

text \<open>
  The search keeps to the role scope for every principal but a manager who sends a
  \<open>team\<close> parameter.
\<close>

lemma searchTasks_within_scope:
  assumes "searchTasks mk st (Some u) p = success 200 (TasksBody ts n)"
    and "role u \<noteq> ''manager'' \<or> \<not> truthy (sp_team p)"
  shows "set ts \<subseteq> {t \<in> set (tasks st). matches (baseQuery u) t}"
proof -
  from assms(1) obtain q skip limit where
    q: "searchTasks_query mk u p = Some q"
    and "find_page st q ''createdAt'' False skip limit = Some ts"
    by (auto simp: searchTasks_def Let_def success_def failure_def split: option.splits)
  from find_page_subset [OF this(2)] show ?thesis
    by (auto dest: matches_searchTasks_query [OF q _ assms(2)])
qed

text \<open>
  C2. The claim: whatever the filter parameters, a list or a search returns only tasks
  of the principal's role scope, and a manager of Engineering who sends \<open>team=Sales\<close>
  still gets Engineering tasks only. In \<open>searchTasks\<close> the assignment
  \<open>query.team = team\<close> replaces the manager's scope key: here the manager of
  Engineering searches with \<open>team=Sales\<close> and is handed the Sales task, which is
  outside the scope \<open>{team: Engineering}\<close> and which \<open>canAccessTask\<close> denies them;
  without the parameter the same search returns nothing.
\<close>

theorem searchTasks_team_parameter_replaces_scope:
  "searchTasks (\<lambda>pat. None) salesStore (Some mockManagerUser)
       (noSearchParams\<lparr>sp_team := Some ''Sales''\<rparr>)
     = success 200 (TasksBody [salesTask] 1)
   \<and> baseQuery mockManagerUser = empty_query\<lparr>q_team := Some ''Engineering''\<rparr>
   \<and> \<not> matches (baseQuery mockManagerUser) salesTask
   \<and> \<not> canAccessTask (plain_user mockManagerUser) (plain_task salesTask)
   \<and> \<not> canAccessTask (req_user mockManagerUser) (loaded salesTask)
   \<and> searchTasks (\<lambda>pat. None) salesStore (Some mockManagerUser) noSearchParams
     = success 200 (TasksBody [] 0)"
  by (simp add: searchTasks_def searchTasks_query_def query_defs fixtures canAccessTask_def)

text \<open>For a manager without a team label the role block leaves the filter empty.\<close>

lemma baseQuery_manager_without_team:
  assumes "role u = ''manager''" and "\<not> truthy (team u)"
  shows "baseQuery u = empty_query" and "matches (baseQuery u) t"
  using assms by (simp_all add: baseQuery_def empty_query_def matches_def)

text \<open>
  C3. The claim: a manager without a team label gets the user-level scope (tasks they
  created or hold) in lists, searches and analytics, never the unrestricted one. The
  role block has no branch for such a manager and leaves the filter empty: the manager
  fixture with its team removed is listed the Sales task, finds it by search and counts
  it in the overview, though they neither created nor hold it and \<open>canAccessTask\<close>
  denies it to them.
\<close>

theorem manager_without_team_is_unscoped:
  "role (mockManagerUser\<lparr>team := None\<rparr>) = ''manager''
   \<and> team (mockManagerUser\<lparr>team := None\<rparr>) = None
   \<and> baseQuery (mockManagerUser\<lparr>team := None\<rparr>) = empty_query
   \<and> getTasks salesStore (Some (mockManagerUser\<lparr>team := None\<rparr>)) noListParams
       = success 200 (TasksBody [salesTask] 1)
   \<and> searchTasks (\<lambda>pat. None) salesStore (Some (mockManagerUser\<lparr>team := None\<rparr>)) noSearchParams
       = success 200 (TasksBody [salesTask] 1)
   \<and> fst (getOverview salesStore (Some (mockManagerUser\<lparr>team := None\<rparr>)))
       = success 200
           (OverviewBody \<lparr>totalTasks = 1, completed = 0, pending = 1, overdue = 0\<rparr> False)
   \<and> \<not> matches (empty_query\<lparr>q_or := Some (uid mockManagerUser)\<rparr>) salesTask
   \<and> \<not> canAccessTask (plain_user (mockManagerUser\<lparr>team := None\<rparr>)) (plain_task salesTask)
   \<and> \<not> canAccessTask (req_user (mockManagerUser\<lparr>team := None\<rparr>)) (loaded salesTask)"
  by (simp add: getTasks_def getTasks_query_def searchTasks_def searchTasks_query_def
      getOverview_def cache_get_def cache_set_def query_defs fixtures canAccessTask_def Let_def)

section \<open>Assignment\<close>

text \<open>The single assignment writes only for a caller who may assign and may see the task.\<close>

lemma assignTask_changes_only_visible:
  assumes "assignTask now st (Some p) i a = (r, st')" and "st' \<noteq> st"
  shows "\<exists>t. findById st i = Result (Some t) \<and> canAccessTask (req_user p) (loaded t)
           \<and> canAssignTask p"
  using assms by (auto simp: assignTask_def split: if_splits option.splits queried.splits)

text \<open>
  C4. The claim: an assignment, single or bulk, changes a task's assignee only when the
  caller passes the visibility predicate for that task. \<open>assignTask\<close> checks
  \<open>canAccessTask\<close>; \<open>bulkAssignTasks\<close> selects by id alone. The manager of
  Engineering cannot see the Sales task and the single assignment answers 404 and
  leaves the store as it was, yet the bulk assignment of the same task by the same
  manager rewrites its assignee.
\<close>

theorem bulkAssignTasks_skips_visibility:
  "\<not> canAccessTask (plain_user mockManagerUser) (plain_task salesTask)
   \<and> \<not> canAccessTask (req_user mockManagerUser) (loaded salesTask)
   \<and> assignTask 5 salesStore (Some mockManagerUser) (tid salesTask) (Some (uid mockUser))
       = (notFound, salesStore)
   \<and> bulkAssignTasks 5 salesStore (Some mockManagerUser) (Some [tid salesTask]) (uid mockUser)
       = (success 200 (ModifiedBody 1),
          salesStore\<lparr>tasks := [salesTask\<lparr>assignedTo := Some (uid mockUser), updatedAt := 5\<rparr>]\<rparr>)"
  by (simp add: assignTask_def bulkAssignTasks_def updateMany_assignedTo_def canAssignTask_def
      canAccessTask_def findById_def User_findById_def findUserById_def fixture_ids
      fixture_ids_cast fixtures)

section \<open>Cache invalidation\<close>

lemma analytics_prefix: "take (length ''analytics:'') (getAnalyticsKey ty i) = ''analytics:''"
  by (cases i) auto

lemma cache_get_delPattern:
  "take (length p) k = p \<Longrightarrow> cache_get (delPattern p st) k = None"
  by (cases "redis st") (auto simp: cache_get_def delPattern_def map_of_eq_None_iff)

lemma invalidated_key_misses:
  "cache_get (invalidateTaskCaches st) (getAnalyticsKey ty i) = None"
  unfolding invalidateTaskCaches_def
  by (rule cache_get_delPattern) (rule analytics_prefix)

lemma tasks_invalidateTaskCaches: "tasks (invalidateTaskCaches st) = tasks st"
  by (simp add: invalidateTaskCaches_def delPattern_def split: option.splits)

text \<open>After \<open>invalidateTaskCaches\<close> the overview is computed from the tasks of the store.\<close>

lemma getOverview_after_invalidation:
  "fst (getOverview (invalidateTaskCaches st) (Some u)) =
     success 200
       (OverviewBody
          \<lparr>totalTasks = countDocuments st (baseQuery u),
           completed = countDocuments st ((baseQuery u)\<lparr>q_status := Some [''completed'']\<rparr>),
           pending = countDocuments st ((baseQuery u)\<lparr>q_status := Some [''todo'', ''in-progress'']\<rparr>),
           overdue = countDocuments st ((baseQuery u)\<lparr>q_status := Some [''overdue'']\<rparr>)\<rparr>
          False)"
  by (simp add: getOverview_def Let_def invalidated_key_misses countDocuments_def
      tasks_invalidateTaskCaches del: getAnalyticsKey.simps)

text \<open>Create, update, delete and single assign end in \<open>invalidateTaskCaches\<close>.\<close>

lemma mutations_invalidate:
  "res_status (fst (createTask newId now st requser cb)) = 201 \<Longrightarrow>
     \<exists>s. snd (createTask newId now st requser cb) = invalidateTaskCaches s"
  "res_status (fst (updateTask now st requser i ub)) = 200 \<Longrightarrow>
     \<exists>s. snd (updateTask now st requser i ub) = invalidateTaskCaches s"
  "res_status (fst (deleteTask st requser i)) = 200 \<Longrightarrow>
     \<exists>s. snd (deleteTask st requser i) = invalidateTaskCaches s"
  "res_status (fst (assignTask now st requser i a)) = 200 \<Longrightarrow>
     \<exists>s. snd (assignTask now st requser i a) = invalidateTaskCaches s"
  by (auto simp: createTask_def updateTask_def deleteTask_def assignTask_def res_status_simps
      split: option.splits if_splits prod.splits queried.splits)

text \<open>
  C5. The claim: after every task mutation, bulk assign included, the task-list and
  analytics caches are emptied, so the next overview for the same scope is not the value
  cached before. \<open>bulkAssignTasks\<close> never calls \<open>invalidateTaskCaches\<close>. The user
  fixture reads the overview (all zeros, now cached); the admin bulk-assigns the Sales
  task to that user; the user's next overview is the cached zeros, where a computation
  on the store gives one task, pending. The single assignment of the same task empties
  the cache and the next overview is computed.
\<close>

theorem bulkAssignTasks_keeps_cached_overview:
  "getOverview salesStore (Some mockUser)
     = (success 200
          (OverviewBody \<lparr>totalTasks = 0, completed = 0, pending = 0, overdue = 0\<rparr> False),
        cachedStore)
   \<and> bulkAssignTasks 5 cachedStore (Some mockAdminUser) (Some [tid salesTask]) (uid mockUser)
     = (success 200 (ModifiedBody 1), reassignedStore)
   \<and> fst (getOverview reassignedStore (Some mockUser))
     = success 200
         (OverviewBody \<lparr>totalTasks = 0, completed = 0, pending = 0, overdue = 0\<rparr> True)
   \<and> fst (getOverview (reassignedStore\<lparr>redis := Some []\<rparr>) (Some mockUser))
     = success 200
         (OverviewBody \<lparr>totalTasks = 1, completed = 0, pending = 1, overdue = 0\<rparr> False)
   \<and> snd (assignTask 5 cachedStore (Some mockAdminUser) (tid salesTask) (Some (uid mockUser)))
     = reassignedStore\<lparr>redis := Some []\<rparr>"
proof (intro conjI)
  show "getOverview salesStore (Some mockUser)
     = (success 200
          (OverviewBody \<lparr>totalTasks = 0, completed = 0, pending = 0, overdue = 0\<rparr> False),
        cachedStore)"
    by (simp add: getOverview_def cache_get_def cache_set_def query_defs fixtures Let_def)
  show "bulkAssignTasks 5 cachedStore (Some mockAdminUser) (Some [tid salesTask]) (uid mockUser)
     = (success 200 (ModifiedBody 1), reassignedStore)"
    by (simp add: fixtures bulkAssignTasks_def updateMany_assignedTo_def canAssignTask_def
        User_findById_def findUserById_def fixture_ids fixture_ids_cast Let_def)
  show "fst (getOverview reassignedStore (Some mockUser))
     = success 200
         (OverviewBody \<lparr>totalTasks = 0, completed = 0, pending = 0, overdue = 0\<rparr> True)"
    by (simp add: getOverview_def cache_get_def fixtures Let_def)
  show "fst (getOverview (reassignedStore\<lparr>redis := Some []\<rparr>) (Some mockUser))
     = success 200
         (OverviewBody \<lparr>totalTasks = 1, completed = 0, pending = 1, overdue = 0\<rparr> False)"
    by (simp add: getOverview_def cache_get_def cache_set_def query_defs fixtures Let_def)
  show "snd (assignTask 5 cachedStore (Some mockAdminUser) (tid salesTask) (Some (uid mockUser)))
     = reassignedStore\<lparr>redis := Some []\<rparr>"
    by (simp add: fixtures assignTask_def canAssignTask_def canAccessTask_def findById_def
        fixture_ids fixture_ids_cast save_def task_valid_def pre_save_def
        invalidateTaskCaches_def delPattern_def Let_def)
qed

section \<open>Authentication\<close>

lemma isTokenBlacklisted_iff: "isTokenBlacklisted st token \<longleftrightarrow> token \<in> set (blacklist st)"
  by (auto simp: isTokenBlacklisted_def find_None_iff)

lemma authenticate_no_token:
  "extractTokenFromHeader h = None \<or> extractTokenFromHeader h = Some [] \<Longrightarrow>
   authenticate l st h = Rejected (failure 401 ''NO_TOKEN'')"
  by (auto simp: authenticate_def)

lemma authenticate_token:
  assumes "extractTokenFromHeader h = Some token" "token \<noteq> []"
  shows "authenticate l st h =
     (if token \<in> set (blacklist st) then Rejected (failure 401 ''TOKEN_BLACKLISTED'')
      else case jwt_verify l token of
             None \<Rightarrow> Rejected (failure 401 ''INVALID_TOKEN'')
           | Some d \<Rightarrow>
               (case findUserById st (jp_userId d) of
                  None \<Rightarrow> Rejected (failure 401 ''USER_NOT_FOUND'')
                | Some u \<Rightarrow> Next u))"
  using assms by (simp add: authenticate_def isTokenBlacklisted_iff verifyToken_def)

lemma authenticate_Next:
  assumes "authenticate l st h = Next u"
  shows "\<exists>token d. extractTokenFromHeader h = Some token \<and> token \<noteq> []
            \<and> token \<notin> set (blacklist st) \<and> jwt_verify l token = Some d
            \<and> findUserById st (jp_userId d) = Some u"
  using assms
  by (auto simp: authenticate_def isTokenBlacklisted_iff verifyToken_def
      split: option.splits if_splits)

lemma authenticate_Rejected:
  assumes "authenticate l st h = Rejected r"
  shows "res_status r = 401"
  using assms
  by (auto simp: authenticate_def res_status_simps split: option.splits if_splits)

text \<open>A token that \<open>logout\<close> has accepted is refused from then on, whatever it verifies to.\<close>

lemma logout_revokes:
  assumes "logout l st h = (r, st')" "res_status r = 200"
  shows "authenticate l' st' h = Rejected (failure 401 ''TOKEN_BLACKLISTED'')"
proof -
  from assms obtain token where tok: "extractTokenFromHeader h = Some token" "token \<noteq> []"
    by (auto simp: logout_def res_status_simps split: option.splits if_splits)
  with assms have "blacklistToken l token st = Some st'"
    by (auto simp: logout_def res_status_simps split: option.splits)
  then have "token \<in> set (blacklist st')"
    by (auto simp: blacklistToken_def split: option.splits if_splits)
  with tok show ?thesis by (simp add: authenticate_token)
qed

text \<open>
  C6. \<open>authenticate\<close> passes a credential through four gates in this order and stops
  at the first that fails, each time with a 401: no token in the header
  (\<open>NO_TOKEN\<close>); the token is in the revoked set (\<open>TOKEN_BLACKLISTED\<close>, whatever
  \<open>jwt.verify\<close> would say); \<open>jwt.verify\<close> refuses it (\<open>INVALID_TOKEN\<close>); no stored
  user has the id it carries (\<open>USER_NOT_FOUND\<close>). A principal is attached only when
  all four pass, and it is the stored user. A token that \<open>logout\<close> accepted is
  rejected afterwards under any verification. The store's lookups are taken to answer.
\<close>

theorem authenticate_gates:
  "(extractTokenFromHeader h = None \<or> extractTokenFromHeader h = Some [] \<longrightarrow>
      authenticate l st h = Rejected (failure 401 ''NO_TOKEN''))
   \<and> (\<forall>token. extractTokenFromHeader h = Some token \<and> token \<noteq> [] \<longrightarrow>
        authenticate l st h =
          (if token \<in> set (blacklist st) then Rejected (failure 401 ''TOKEN_BLACKLISTED'')
           else case jwt_verify l token of
                  None \<Rightarrow> Rejected (failure 401 ''INVALID_TOKEN'')
                | Some d \<Rightarrow>
                    (case findUserById st (jp_userId d) of
                       None \<Rightarrow> Rejected (failure 401 ''USER_NOT_FOUND'')
                     | Some u \<Rightarrow> Next u)))
   \<and> (\<forall>u. authenticate l st h = Next u \<longrightarrow>
        (\<exists>token d. extractTokenFromHeader h = Some token \<and> token \<noteq> []
            \<and> token \<notin> set (blacklist st) \<and> jwt_verify l token = Some d
            \<and> findUserById st (jp_userId d) = Some u))
   \<and> (\<forall>r. authenticate l st h = Rejected r \<longrightarrow> res_status r = 401)
   \<and> (\<forall>r st' l'. logout l st h = (r, st') \<and> res_status r = 200 \<longrightarrow>
        authenticate l' st' h = Rejected (failure 401 ''TOKEN_BLACKLISTED''))"
proof (intro conjI allI impI)
  assume "extractTokenFromHeader h = None \<or> extractTokenFromHeader h = Some []"
  then show "authenticate l st h = Rejected (failure 401 ''NO_TOKEN'')"
    by (rule authenticate_no_token)
next
  fix token
  assume "extractTokenFromHeader h = Some token \<and> token \<noteq> []"
  then show "authenticate l st h =
          (if token \<in> set (blacklist st) then Rejected (failure 401 ''TOKEN_BLACKLISTED'')
           else case jwt_verify l token of
                  None \<Rightarrow> Rejected (failure 401 ''INVALID_TOKEN'')
                | Some d \<Rightarrow>
                    (case findUserById st (jp_userId d) of
                       None \<Rightarrow> Rejected (failure 401 ''USER_NOT_FOUND'')
                     | Some u \<Rightarrow> Next u))"
    by (simp add: authenticate_token)
next
  fix u
  assume "authenticate l st h = Next u"
  then show "\<exists>token d. extractTokenFromHeader h = Some token \<and> token \<noteq> []
            \<and> token \<notin> set (blacklist st) \<and> jwt_verify l token = Some d
            \<and> findUserById st (jp_userId d) = Some u"
    by (rule authenticate_Next)
next
  fix r
  assume "authenticate l st h = Rejected r"
  then show "res_status r = 401"
    by (rule authenticate_Rejected)
next
  fix r st' l'
  assume "logout l st h = (r, st') \<and> res_status r = 200"
  then show "authenticate l' st' h = Rejected (failure 401 ''TOKEN_BLACKLISTED'')"
    by (blast intro: logout_revokes)
qed

text \<open>
  The gates at the user fixture, whose token verifies: revoked, it is refused; not
  revoked, it resolves to the user; with the user deleted it is refused; a header with
  no token is refused; and after \<open>logout\<close> it is refused.
\<close>

theorem authenticate_gates_witness:
  "authenticate testLib (salesStore\<lparr>blacklist := [uid mockUser]\<rparr>)
       (Some (''Bearer '' @ uid mockUser))
     = Rejected (failure 401 ''TOKEN_BLACKLISTED'')
   \<and> authenticate testLib salesStore (Some (''Bearer '' @ uid mockUser)) = Next mockUser
   \<and> authenticate testLib (salesStore\<lparr>users := [mockAdminUser]\<rparr>)
       (Some (''Bearer '' @ uid mockUser))
     = Rejected (failure 401 ''USER_NOT_FOUND'')
   \<and> authenticate testLib salesStore (Some ''Bearer '') = Rejected (failure 401 ''NO_TOKEN'')
   \<and> authenticate testLib (snd (logout testLib salesStore (Some (''Bearer '' @ uid mockUser))))
        (Some (''Bearer '' @ uid mockUser))
     = Rejected (failure 401 ''TOKEN_BLACKLISTED'')"
proof -
  let ?h = "Some (''Bearer '' @ uid mockUser)"
  have ex: "extractTokenFromHeader ?h = Some (uid mockUser) \<and> uid mockUser \<noteq> []"
    by (simp add: extractTokenFromHeader_def fixtures)
  have ex0: "extractTokenFromHeader (Some ''Bearer '') = None
      \<or> extractTokenFromHeader (Some ''Bearer '') = Some []"
    by (simp add: extractTokenFromHeader_def)
  have lo: "logout testLib salesStore ?h
      = (success 200 NoBody, salesStore\<lparr>blacklist := [uid mockUser]\<rparr>)"
    by (simp add: logout_def blacklistToken_def extractTokenFromHeader_def fixtures)
  note a = authenticate_gates [of ?h testLib "salesStore\<lparr>blacklist := [uid mockUser]\<rparr>"]
  note b = authenticate_gates [of ?h testLib salesStore]
  note c = authenticate_gates [of ?h testLib "salesStore\<lparr>users := [mockAdminUser]\<rparr>"]
  note d = authenticate_gates [of "Some ''Bearer ''" testLib salesStore]
  have 1: "authenticate testLib (salesStore\<lparr>blacklist := [uid mockUser]\<rparr>) ?h
     = Rejected (failure 401 ''TOKEN_BLACKLISTED'')"
    using a ex by (simp add: fixtures)
  have 2: "authenticate testLib salesStore ?h = Next mockUser"
    using b ex by (simp add: fixtures findUserById_def)
  have 3: "authenticate testLib (salesStore\<lparr>users := [mockAdminUser]\<rparr>) ?h
     = Rejected (failure 401 ''USER_NOT_FOUND'')"
    using c ex by (simp add: fixtures findUserById_def)
  have 4: "authenticate testLib salesStore (Some ''Bearer '')
     = Rejected (failure 401 ''NO_TOKEN'')"
    using d ex0 by blast
  have 5: "authenticate testLib (snd (logout testLib salesStore ?h)) ?h
     = Rejected (failure 401 ''TOKEN_BLACKLISTED'')"
    using b lo by (simp add: res_status_simps)
  from 1 2 3 4 5 show ?thesis by blast
qed

section \<open>Denial on a single task\<close>

text \<open>
  C7, as the claim has it: every read, update, delete or assign of a stored task the
  principal may not see is answered with the 404 of a missing task, never with a 403.
  \<open>assignTask\<close> asks \<open>canAssignTask\<close> before it looks the task up: the user
  fixture, who may not see the Sales task, is answered 403 \<open>FORBIDDEN\<close>.
\<close>

theorem assignTask_without_capability_is_forbidden:
  "findById salesStore (tid salesTask) = Result (Some salesTask)
   \<and> \<not> canAccessTask (plain_user mockUser) (plain_task salesTask)
   \<and> \<not> canAccessTask (req_user mockUser) (loaded salesTask)
   \<and> fst (assignTask 5 salesStore (Some mockUser) (tid salesTask) (Some (uid mockUser)))
       = failure 403 ''FORBIDDEN''
   \<and> res_status
        (fst (assignTask 5 salesStore (Some mockUser) (tid salesTask) (Some (uid mockUser))))
       = 403
   \<and> fst (assignTask 5 salesStore (Some mockUser) (tid salesTask) (Some (uid mockUser)))
       \<noteq> notFound"
  by (simp add: assignTask_def canAssignTask_def canAccessTask_def findById_def fixture_ids
      fixtures notFound_eq_failure res_status_simps)

text \<open>
  C7, amended. For a stored task \<open>i\<close> the principal may not see and a well-formed id
  \<open>j\<close> that names no task: read, update and delete answer both with the same 404 and
  leave the store alone; so does assign when the principal may assign (admin or
  manager). When the principal may not assign, assign answers 403 \<open>FORBIDDEN\<close>
  whatever the id \<open>k\<close> is, be the task stored or not, visible or not, and leaves the
  store alone. In every case the answer for the hidden task is the answer for the
  missing one.
\<close>

theorem denied_single_task_is_notFound:
  "(findById st i = Result (Some x) \<and> \<not> canAccessTask (req_user p) (loaded x)
      \<and> findById st j = Result None \<longrightarrow>
      getTaskById st (Some p) i = notFound \<and> getTaskById st (Some p) j = notFound
      \<and> updateTask now st (Some p) i b = (notFound, st)
      \<and> updateTask now st (Some p) j b = (notFound, st)
      \<and> deleteTask st (Some p) i = (notFound, st) \<and> deleteTask st (Some p) j = (notFound, st)
      \<and> assignTask now st (Some p) i a =
          (if canAssignTask p then (notFound, st) else (failure 403 ''FORBIDDEN'', st))
      \<and> assignTask now st (Some p) j a = assignTask now st (Some p) i a)
   \<and> (\<not> canAssignTask p \<longrightarrow>
        assignTask now st (Some p) k a = (failure 403 ''FORBIDDEN'', st))
   \<and> failure 403 ''FORBIDDEN'' \<noteq> notFound"
proof (intro conjI)
  show "findById st i = Result (Some x) \<and> \<not> canAccessTask (req_user p) (loaded x)
      \<and> findById st j = Result None \<longrightarrow>
      getTaskById st (Some p) i = notFound \<and> getTaskById st (Some p) j = notFound
      \<and> updateTask now st (Some p) i b = (notFound, st)
      \<and> updateTask now st (Some p) j b = (notFound, st)
      \<and> deleteTask st (Some p) i = (notFound, st) \<and> deleteTask st (Some p) j = (notFound, st)
      \<and> assignTask now st (Some p) i a =
          (if canAssignTask p then (notFound, st) else (failure 403 ''FORBIDDEN'', st))
      \<and> assignTask now st (Some p) j a = assignTask now st (Some p) i a"
    by (simp add: getTaskById_access updateTask_def deleteTask_def assignTask_def)
  show "\<not> canAssignTask p \<longrightarrow>
        assignTask now st (Some p) k a = (failure 403 ''FORBIDDEN'', st)"
    by (simp add: assignTask_def)
  show "failure 403 ''FORBIDDEN'' \<noteq> notFound"
    by (simp add: notFound_eq_failure)
qed

text \<open>
  The manager of Engineering, who may assign, is answered the same 404 for the Sales
  task and for the id of no task; the user fixture, who may not, the same 403.
\<close>

theorem denied_single_task_is_notFound_witness:
  "findById salesStore (tid salesTask) = Result (Some salesTask)
   \<and> \<not> canAccessTask (req_user mockManagerUser) (loaded salesTask)
   \<and> findById salesStore missingId = Result None
   \<and> canAssignTask mockManagerUser
   \<and> assignTask 5 salesStore (Some mockManagerUser) (tid salesTask) (Some (uid mockUser))
       = (notFound, salesStore)
   \<and> assignTask 5 salesStore (Some mockManagerUser) missingId (Some (uid mockUser))
       = (notFound, salesStore)
   \<and> getTaskById salesStore (Some mockManagerUser) (tid salesTask) = notFound
   \<and> getTaskById salesStore (Some mockManagerUser) missingId = notFound
   \<and> \<not> canAssignTask mockUser
   \<and> assignTask 5 salesStore (Some mockUser) (tid salesTask) (Some (uid mockUser))
       = (failure 403 ''FORBIDDEN'', salesStore)
   \<and> assignTask 5 salesStore (Some mockUser) missingId (Some (uid mockUser))
       = (failure 403 ''FORBIDDEN'', salesStore)"
proof -
  have 1: "findById salesStore (tid salesTask) = Result (Some salesTask)"
    by (simp add: findById_def fixture_ids fixtures)
  have 2: "\<not> canAccessTask (req_user mockManagerUser) (loaded salesTask)"
    by (simp add: canAccessTask_def fixtures)
  have 3: "findById salesStore missingId = Result None"
    by (simp add: findById_def fixture_ids fixtures)
  have 4: "canAssignTask mockManagerUser"
    by (simp add: canAssignTask_def fixtures)
  have 5: "\<not> canAssignTask mockUser"
    by (simp add: canAssignTask_def fixtures)
  note m = denied_single_task_is_notFound
    [where st = salesStore and i = "tid salesTask" and x = salesTask and p = mockManagerUser
       and j = missingId and now = 5 and a = "Some (uid mockUser)"]
  note u1 = denied_single_task_is_notFound
    [where st = salesStore and p = mockUser and k = "tid salesTask" and now = 5
       and a = "Some (uid mockUser)"]
  note u2 = denied_single_task_is_notFound
    [where st = salesStore and p = mockUser and k = missingId and now = 5
       and a = "Some (uid mockUser)"]
  from m 1 2 3 4 have
    "assignTask 5 salesStore (Some mockManagerUser) (tid salesTask) (Some (uid mockUser))
       = (notFound, salesStore)"
    "assignTask 5 salesStore (Some mockManagerUser) missingId (Some (uid mockUser))
       = (notFound, salesStore)"
    "getTaskById salesStore (Some mockManagerUser) (tid salesTask) = notFound"
    "getTaskById salesStore (Some mockManagerUser) missingId = notFound"
    by simp_all
  moreover from u1 5 have
    "assignTask 5 salesStore (Some mockUser) (tid salesTask) (Some (uid mockUser))
       = (failure 403 ''FORBIDDEN'', salesStore)"
    by simp
  moreover from u2 5 have
    "assignTask 5 salesStore (Some mockUser) missingId (Some (uid mockUser))
       = (failure 403 ''FORBIDDEN'', salesStore)"
    by simp
  ultimately show ?thesis using 1 2 3 4 5 by simp
qed

section \<open>Roles\<close>

text \<open>
  The self-change test compares a string with an object: \<open>updateUserRole\<close> never
  answers \<open>SELF_ROLE_CHANGE\<close>, and a request that \<open>canAssignRole\<close> allows rewrites
  the role of whatever user it finds, the requesting one included.
\<close>

lemma updateUserRole_never_self_change:
  "fst (updateUserRole st requser userId r) \<noteq> failure 400 ''SELF_ROLE_CHANGE''"
  by (simp add: updateUserRole_def failure_def success_def Let_def
      split: option.splits queried.splits)

lemma updateUserRole_found:
  assumes "canAssignRole p x" and "User_findById st userId = Result (Some target)"
  shows "updateUserRole st (Some p) userId (Some x) =
     (success 200 (UserBody (target\<lparr>role := x\<rparr>)),
      st\<lparr>users := map (\<lambda>y. if uid y = uid target then target\<lparr>role := x\<rparr> else y) (users st)\<rparr>)"
  using assms by (simp add: updateUserRole_def Let_def)

text \<open>
  C8. The claim: a role update whose target is the requesting principal is rejected and
  the role stays, even for an admin, by a check of the handler's own. The handler has
  that check, under the comment \<open>Prevent users from changing their own role\<close>, but it
  never holds: the admin fixture asks for the role \<open>user\<close> on their own id, is
  answered 200, and is stored with the role \<open>user\<close>.
\<close>

theorem updateUserRole_self_change_goes_through:
  "role mockAdminUser = ''admin''
   \<and> findUserById salesStore (uid mockAdminUser) = Some mockAdminUser
   \<and> updateUserRole salesStore (Some mockAdminUser) (uid mockAdminUser) (Some ''user'')
       = (success 200 (UserBody (mockAdminUser\<lparr>role := ''user''\<rparr>)),
          salesStore\<lparr>users := [mockUser, mockAdminUser\<lparr>role := ''user''\<rparr>, mockManagerUser]\<rparr>)
   \<and> findUserById
        (snd (updateUserRole salesStore (Some mockAdminUser) (uid mockAdminUser) (Some ''user'')))
        (uid mockAdminUser)
       = Some (mockAdminUser\<lparr>role := ''user''\<rparr>)"
  by (simp add: updateUserRole_def canAssignRole_def User_findById_def findUserById_def
      fixture_ids fixtures Let_def)

section \<open>Registration\<close>

lemma assignedRole_elevated:
  "r = Some ''admin'' \<or> r = Some ''manager'' \<Longrightarrow> assignedRole r = ''user''"
  by (auto simp: assignedRole_def)

lemma assignedRole_valid_is_user:
  "assignedRole r \<in> set [''admin'', ''manager'', ''user''] \<Longrightarrow> assignedRole r = ''user''"
  by (cases r) (auto simp: assignedRole_def split: if_splits)

lemma user_valid_role:
  "user_valid l pw (new_user l newId b) \<Longrightarrow> role (new_user l newId b) = ''user''"
  using assignedRole_valid_is_user [of "rb_role b"]
  by (simp add: user_valid_def new_user_def)

lemma register_cases:
  "register l newId st b =
     (success 201
        (RegisteredBody
           (jwt_sign l \<lparr>jp_userId = newId, jp_email = email (new_user l newId b),
                        jp_role = role (new_user l newId b)\<rparr>)
           (new_user l newId b)),
      st\<lparr>users := users st @ [new_user l newId b]\<rparr>)
     \<and> user_valid l (rb_password b) (new_user l newId b)
   \<or> (res_status (fst (register l newId st b)) \<in> {400, 500} \<and> snd (register l newId st b) = st)"
  by (auto simp: register_def Let_def res_status_simps new_user_def split: option.splits)

text \<open>A payload that differs from a stored user by white space or case only is refused.\<close>

lemma register_existing_after_setters:
  assumes "x \<in> set (users st)"
    and "email x = trim (toLowerCase (rb_email b)) \<or> username x = trim (rb_username b)"
  shows "register l newId st b = (failure 400 ''USER_EXISTS'', st)"
proof -
  from assms have
    "find (\<lambda>x. email x = trim (toLowerCase (rb_email b)) \<or> username x = trim (rb_username b))
       (users st) \<noteq> None"
    by (auto simp: find_None_iff)
  then show ?thesis
    by (auto simp: register_def)
qed

text \<open>
  C9. Whatever the payload, \<open>register\<close> either answers 201 with a user whose role is
  \<open>user\<close> and appends exactly that user to the store, or answers an error (400 or 500)
  and leaves the store as it was: a payload role of \<open>admin\<close> or \<open>manager\<close> is
  replaced by \<open>user\<close>, and any other role than \<open>user\<close> fails validation.
\<close>

theorem register_never_elevates:
  "((\<exists>token u. register l newId st b
                = (success 201 (RegisteredBody token u), st\<lparr>users := users st @ [u]\<rparr>)
        \<and> role u = ''user'')
    \<or> (res_status (fst (register l newId st b)) \<in> {400, 500}
        \<and> snd (register l newId st b) = st))
   \<and> assignedRole (Some ''admin'') = ''user'' \<and> assignedRole (Some ''manager'') = ''user''"
proof (intro conjI)
  show "(\<exists>token u. register l newId st b
                = (success 201 (RegisteredBody token u), st\<lparr>users := users st @ [u]\<rparr>)
        \<and> role u = ''user'')
    \<or> (res_status (fst (register l newId st b)) \<in> {400, 500}
        \<and> snd (register l newId st b) = st)"
    using register_cases [of l newId st b] user_valid_role [of l "rb_password b" newId b]
    by blast
  show "assignedRole (Some ''admin'') = ''user''"
    by (simp add: assignedRole_elevated)
  show "assignedRole (Some ''manager'') = ''user''"
    by (simp add: assignedRole_elevated)
qed

text \<open>
  The registration of the integration test: the valid payload with \<open>role: 'admin'\<close>
  on an empty store is answered 201 and the user stored has the role \<open>user\<close>.
\<close>

theorem register_never_elevates_witness:
  "register testLib ''id-1'' emptyStore (validUser\<lparr>rb_role := Some ''admin''\<rparr>)
    = (success 201
         (RegisteredBody ''id-1''
            (new_user testLib ''id-1'' (validUser\<lparr>rb_role := Some ''admin''\<rparr>))),
       emptyStore\<lparr>users := [new_user testLib ''id-1'' (validUser\<lparr>rb_role := Some ''admin''\<rparr>)]\<rparr>)
   \<and> role (new_user testLib ''id-1'' (validUser\<lparr>rb_role := Some ''admin''\<rparr>)) = ''user''"
proof -
  let ?b = "validUser\<lparr>rb_role := Some ''admin''\<rparr>"
  let ?u = "new_user testLib ''id-1'' ?b"
  have valid: "user_valid testLib (rb_password ?b) ?u"
    by (simp add: new_user_def fixtures user_valid_def assignedRole_def trim_def is_space_def
        toLowerCase_def word_char_def)
  have run: "register testLib ''id-1'' emptyStore ?b
      = (success 201 (RegisteredBody ''id-1'' ?u), emptyStore\<lparr>users := [?u]\<rparr>)"
    using valid
    by (simp add: register_def Let_def emptyStore_def testLib_def) (simp add: new_user_def)
  from register_never_elevates [of testLib "''id-1''" emptyStore ?b] run
  have "role ?u = ''user''"
    by (auto simp: res_status_simps success_def)
  with run show ?thesis by simp
qed

section \<open>Task creation\<close>

text \<open>
  The \<open>trim\<close> setter changes nothing the second time, so the team label of a user
  stored by \<open>register\<close> is one the task schema's setter leaves as it is.
\<close>

lemma trim_idem: "trim (trim s) = trim s"
proof -
  define a where "a = dropWhile is_space s"
  define b where "b = rev (dropWhile is_space (rev a))"
  define c where "c = rev (takeWhile is_space (rev a))"
  have a: "a = [] \<or> \<not> is_space (hd a)"
    unfolding a_def by (metis hd_dropWhile)
  have "a = rev (rev a)"
    by simp
  also have "\<dots> = rev (takeWhile is_space (rev a) @ dropWhile is_space (rev a))"
    by (simp only: takeWhile_dropWhile_id)
  also have "\<dots> = b @ c"
    unfolding b_def c_def by (simp only: rev_append)
  finally have parts: "a = b @ c" .
  have "b = [] \<or> \<not> is_space (hd b)"
  proof (cases b)
    case Nil
    then show ?thesis by simp
  next
    case (Cons x bs)
    with parts have "hd a = x" and "a \<noteq> []" by simp_all
    with a Cons show ?thesis by simp
  qed
  then have front: "dropWhile is_space b = b"
    by (cases b) auto
  have rear: "dropWhile is_space (rev b) = rev b"
    unfolding b_def by simp
  show ?thesis
    unfolding trim_def a_def [symmetric] b_def [symmetric] front rear by simp
qed

lemma new_user_team_trimmed:
  "map_option trim (team (new_user l newId b)) = team (new_user l newId b)"
  by (cases "rb_team b") (simp_all add: new_user_def trim_idem)

lemma pre_save_keeps:
  "createdBy (pre_save now t) = createdBy t" "assignedTo (pre_save now t) = assignedTo t"
  "task_team (pre_save now t) = task_team t" "tid (pre_save now t) = tid t"
  by (simp_all add: pre_save_def split: option.splits)


lemma create_doc_Some:
  assumes "create_doc now t st = Some (t', st')"
  shows "tasks st' = tasks st @ [t'] \<and> tid t' = tid t \<and> createdBy t' = createdBy t
     \<and> assignedTo t' = assignedTo t \<and> task_team t' = map_option trim (task_team t)"
  using assms
  by (auto simp: create_doc_def Let_def pre_save_keeps task_trimmed_def split: if_splits)

lemma createTask_ignores_team:
  "createTask newId now st requser (b\<lparr>cb_team := x\<rparr>) = createTask newId now st requser b"
  by (cases requser) (simp_all add: createTask_def new_task_def)

text \<open>
  When \<open>createTask\<close> answers 201, the task it returns is the one it appended to the
  store; its team is the creating principal's team label (as the schema's \<open>trim\<close>
  setter stores it, which leaves a label without surrounding white space as it is), its
  creator is the principal, its assignee is the body's \<open>assignedTo\<close> or, when that is
  missing or empty, the creator; and a \<open>team\<close> in the body changes nothing. As plain
  values the task passes \<open>canAccessTask\<close> for its creator; as the document a handler
  loads it passes only for an admin or a manager of its team.
\<close>

lemma createTask_stored_task:
  assumes "createTask newId now st (Some p) b = (r, st')" and "res_status r = 201"
  shows "\<exists>t. r = success 201 (TaskBody t) \<and> tasks st' = tasks st @ [t] \<and> tid t = newId
      \<and> task_team t = map_option trim (team p)
      \<and> (map_option trim (team p) = team p \<longrightarrow> task_team t = team p)
      \<and> createdBy t = uid p
      \<and> assignedTo t = Some (or_else (map_option toLowerCase (cb_assignedTo b)) (uid p))
      \<and> (\<not> truthy (cb_assignedTo b) \<longrightarrow> assignedTo t = Some (uid p))
      \<and> canAccessTask (plain_user p) (plain_task t)
      \<and> (role p = ''user'' \<longrightarrow> \<not> canAccessTask (req_user p) (loaded t))
      \<and> createTask newId now st (Some p) (b\<lparr>cb_team := x\<rparr>) = (r, st')"
proof -
  from assms obtain t st1 where
    cd: "create_doc now (new_task newId now p b) st = Some (t, st1)"
    and r: "r = success 201 (TaskBody t)" and st': "st' = invalidateTaskCaches st1"
    by (auto simp: createTask_def res_status_simps split: if_splits option.splits)
  from create_doc_Some [OF cd]
  have t: "tasks st1 = tasks st @ [t]" "createdBy t = uid p"
    "assignedTo t = Some (or_else (map_option toLowerCase (cb_assignedTo b)) (uid p))"
    "task_team t = map_option trim (team p)" "tid t = newId"
    by (simp_all add: new_task_def)
  have d: "\<not> truthy (cb_assignedTo b) \<longrightarrow>
      or_else (map_option toLowerCase (cb_assignedTo b)) (uid p) = uid p"
    by (cases "cb_assignedTo b") (auto simp: toLowerCase_def)
  from t(2) have acc: "canAccessTask (plain_user p) (plain_task t)"
    by (simp add: canAccessTask_plain_iff)
  have den: "role p = ''user'' \<longrightarrow> \<not> canAccessTask (req_user p) (loaded t)"
    by (simp add: canAccessTask_documents_iff)
  from r st' t d acc den assms(1) show ?thesis
    by (simp add: createTask_ignores_team tasks_invalidateTaskCaches)
qed

text \<open>
  A principal of role \<open>user\<close> who names an assignee, themself included, is refused:
  the body's string is never \<open>===\<close> the \<open>_id\<close> of \<open>req.user\<close>.
\<close>

lemma createTask_named_assignee_forbidden:
  assumes "\<not> canAssignTask p" and "cb_assignedTo b = Some a" and "a \<noteq> []"
  shows "createTask newId now st (Some p) b = (failure 403 ''FORBIDDEN'', st)"
  using assms by (simp add: createTask_def)

text \<open>
  C10. The claim: a created task has its creator's team (a team in the body is
  ignored), the creator as its assignee when the body names none, and so passes its
  creator's own visibility check. The first two hold. The user fixture creates a task
  whose body names the team Sales and no assignee: the stored task is of Engineering,
  created by and assigned to the fixture, and as plain values it passes
  \<open>canAccessTask\<close>; the document the read handler loads does not, and the creator's
  read of the task just created is answered with the 404 of a missing task.
\<close>

theorem creator_is_denied_the_task_created:
  "createTask newTaskId 5 usersStore (Some mockUser) userTaskBody
     = (success 201 (TaskBody createdTask), createdStore)
   \<and> tasks createdStore = [createdTask]
   \<and> tid createdTask = newTaskId
   \<and> task_team createdTask = Some ''Engineering''
   \<and> task_team createdTask = team mockUser
   \<and> createdBy createdTask = uid mockUser
   \<and> assignedTo createdTask = Some (uid mockUser)
   \<and> canAccessTask (plain_user mockUser) (plain_task createdTask)
   \<and> findById createdStore newTaskId = Result (Some createdTask)
   \<and> \<not> canAccessTask (req_user mockUser) (loaded createdTask)
   \<and> \<not> canAccessTask (req_user mockUser) (populated createdStore createdTask)
   \<and> getTaskById createdStore (Some mockUser) newTaskId = notFound
   \<and> getTaskById createdStore (Some mockAdminUser) newTaskId
       = success 200 (TaskBody createdTask)"
proof -
  have run: "createTask newTaskId 5 usersStore (Some mockUser) userTaskBody
      = (success 201 (TaskBody createdTask), createdStore)"
    by (simp add: createTask_def create_doc_def new_task_def createdTask_def createdStore_def
        fixtures Let_def task_trimmed_def task_valid_def trim_def is_space_def pre_save_def
        invalidateTaskCaches_def delPattern_def)
  have rest: "tasks createdStore = [createdTask]" "tid createdTask = newTaskId"
    "task_team createdTask = Some ''Engineering''" "task_team createdTask = team mockUser"
    "createdBy createdTask = uid mockUser" "assignedTo createdTask = Some (uid mockUser)"
    by (simp_all add: createdTask_def createdStore_def new_task_def fixtures)
  have found: "findById createdStore newTaskId = Result (Some createdTask)"
    by (simp add: findById_def createdStore_def createdTask_def new_task_def fixture_ids
        fixtures)
  have plain: "canAccessTask (plain_user mockUser) (plain_task createdTask)"
    by (simp add: canAccessTask_plain_iff rest)
  have doc: "\<not> canAccessTask (req_user mockUser) (loaded createdTask)"
    by (simp add: canAccessTask_documents_iff fixtures)
  have adm: "canAccessTask (req_user mockAdminUser) (loaded createdTask)"
    by (simp add: canAccessTask_documents_iff fixtures)
  from found doc adm have
    "getTaskById createdStore (Some mockUser) newTaskId = notFound"
    "getTaskById createdStore (Some mockAdminUser) newTaskId = success 200 (TaskBody createdTask)"
    by (simp_all add: getTaskById_access)
  with run rest found plain doc show ?thesis
    by (simp add: canAccessTask_populated)
qed

end
